theory Spec2Isabelle
  imports Main
begin

section \<open>The request mediator of tjenare\<close>

text \<open>
  A shallow embedding of \<^verbatim>\<open>mediator/mediator.go\<close> and of the configuration
  records of \<^verbatim>\<open>config/config.go\<close>. Go strings are byte strings, modelled as
  \<open>string\<close>. What the mediator obtains from outside the repository (the public
  suffix list, the file system, the MIME table, the time formatter, the URL
  parser, the certificate loader and the upstream round trip) is a record of
  functions, \<open>env\<close>, that every operation takes as its first argument.
\<close>

subsection \<open>Strings and paths of the Go standard library\<close>

text \<open>\<^verbatim>\<open>strings.HasSuffix\<close> and \<^verbatim>\<open>strings.TrimSuffix\<close>.\<close>

definition HasSuffix :: "string \<Rightarrow> string \<Rightarrow> bool" where
  "HasSuffix s suffix \<longleftrightarrow>
     length suffix \<le> length s \<and> drop (length s - length suffix) s = suffix"

definition TrimSuffix :: "string \<Rightarrow> string \<Rightarrow> string" where
  "TrimSuffix s suffix =
     (if HasSuffix s suffix then take (length s - length suffix) s else s)"

text \<open>
  \<^verbatim>\<open>strings.Split(s, sep)\<close> for a separator of one byte: the pieces between the
  separators, never an empty list. \<open>Split_first\<close> is \<^verbatim>\<open>strings.Split(s, sep)[0]\<close>.
\<close>

fun Split :: "string \<Rightarrow> char \<Rightarrow> string list" where
  "Split [] sep = [[]]"
| "Split (c # cs) sep =
     (if c = sep then [] # Split cs sep
      else (case Split cs sep of
              [] \<Rightarrow> [[c]]
            | piece # pieces \<Rightarrow> (c # piece) # pieces))"

definition Split_first :: "string \<Rightarrow> char \<Rightarrow> string" where
  "Split_first s sep = (case Split s sep of [] \<Rightarrow> [] | piece # _ \<Rightarrow> piece)"

text \<open>\<^verbatim>\<open>strings.Join(elems, sep)\<close>.\<close>

fun strings_Join :: "string list \<Rightarrow> string \<Rightarrow> string" where
  "strings_Join [] sep = []"
| "strings_Join [e] sep = e"
| "strings_Join (e # es) sep = e @ sep @ strings_Join es sep"

text \<open>
  \<^verbatim>\<open>filepath.Clean\<close> on a Unix system, where the separator is \<open>/\<close> and there is
  no volume name. The library walks the path element by element and keeps the
  output in a buffer; \<open>clean_elem\<close> is one iteration of that loop, the buffer
  being the list of elements written so far, last one first. An empty element
  and \<open>.\<close> are skipped; \<open>..\<close> removes the last real element, is dropped at the
  root, and is kept in front of a relative path.
\<close>

definition clean_elem :: "bool \<Rightarrow> string list \<Rightarrow> string \<Rightarrow> string list" where
  "clean_elem rooted out e =
     (if e = [] \<or> e = ''.'' then out
      else if e = ''..'' then
        (case out of
           [] \<Rightarrow> (if rooted then [] else [''..''])
         | prev # rest \<Rightarrow> (if prev = ''..'' then ''..'' # out else rest))
      else e # out)"

definition Clean :: "string \<Rightarrow> string" where
  "Clean path =
     (if path = [] then ''.''
      else
        let rooted = (hd path = CHR ''/'');
            out = foldl (clean_elem rooted) [] (Split path (CHR ''/''));
            s = strings_Join (rev out) ''/''
        in if rooted then CHR ''/'' # s
           else if s = [] then ''.'' else s)"

text \<open>
  \<^verbatim>\<open>filepath.Join\<close>: the elements from the first non-empty one on, joined by the
  separator and cleaned; the empty string when every element is empty.
\<close>

definition Join :: "string list \<Rightarrow> string" where
  "Join elem =
     (case dropWhile (\<lambda>e. e = []) elem of
        [] \<Rightarrow> []
      | e # es \<Rightarrow> Clean (strings_Join (e # es) ''/''))"

text \<open>
  \<^verbatim>\<open>filepath.Dir\<close>: the path up to and including its last separator, cleaned.
  \<^verbatim>\<open>filepath.Ext\<close>: the suffix of the last element that starts at its last dot.
\<close>

definition Dir :: "string \<Rightarrow> string" where
  "Dir path = Clean (rev (dropWhile (\<lambda>c. c \<noteq> CHR ''/'') (rev path)))"

definition Ext :: "string \<Rightarrow> string" where
  "Ext path =
     (let last_elem = takeWhile (\<lambda>c. c \<noteq> CHR ''/'') (rev path)
      in if CHR ''.'' \<in> set last_elem
         then rev (takeWhile (\<lambda>c. c \<noteq> CHR ''.'') last_elem @ ''.'')
         else [])"

text \<open>
  \<^verbatim>\<open>strconv.FormatInt(i, 10)\<close>: the decimal digits, most significant first,
  after a minus sign for a negative number.
\<close>

definition digit :: "nat \<Rightarrow> char" where
  "digit d = ''0123456789'' ! d"

function FormatUint :: "nat \<Rightarrow> string" where
  "FormatUint n = (if n < 10 then [digit n] else FormatUint (n div 10) @ [digit (n mod 10)])"
  by pat_completeness auto
termination
  by (relation "measure id") auto

declare FormatUint.simps [simp del]

definition FormatInt :: "int \<Rightarrow> string" where
  "FormatInt i = (if i < 0 then CHR ''-'' # FormatUint (nat (- i)) else FormatUint (nat i))"

subsection \<open>Errors\<close>

text \<open>
  Go error values. \<open>New msg\<close> is \<^verbatim>\<open>errors.New(msg)\<close> or an error of a library
  with that text; \<open>Errorf msg err\<close> is \<^verbatim>\<open>fmt.Errorf("msg: %w", err)\<close>, which wraps
  \<open>err\<close>; \<open>Canceled\<close> is \<^verbatim>\<open>context.Canceled\<close>; \<open>ErrNotExist\<close> is the error of a
  system call on a path that does not exist.
\<close>

datatype error =
    New string
  | Errorf string error
  | Canceled
  | ErrNotExist

text \<open>\<^verbatim>\<open>errors.Is(err, target)\<close> follows the chain of wrapped errors.\<close>

fun errors_Is :: "error \<Rightarrow> error \<Rightarrow> bool" where
  "errors_Is (Errorf msg err) target = (Errorf msg err = target \<or> errors_Is err target)"
| "errors_Is err target = (err = target)"

text \<open>\<^verbatim>\<open>os.IsNotExist(err)\<close> looks at the error itself, not at what it wraps.\<close>

definition IsNotExist :: "error \<Rightarrow> bool" where
  "IsNotExist err \<longleftrightarrow> err = ErrNotExist"

subsection \<open>Configuration\<close>

text \<open>
  The records of \<^verbatim>\<open>config/config.go\<close>. A \<^verbatim>\<open>time.Time\<close> is an instant on the integer
  line and \<^verbatim>\<open>t.Before(u)\<close> is \<open>t < u\<close>. A \<^verbatim>\<open>*tls.Config\<close> is an address in the
  heap of TLS configurations of the process state below, \<open>None\<close> being \<^verbatim>\<open>nil\<close>.
  A parsed \<^verbatim>\<open>*url.URL\<close> is kept as the value the parser returned. The closures of
  a \<^verbatim>\<open>httputil.ReverseProxy\<close> read two fields of the backend they were created
  for, its URL and its target, neither of which changes once the proxy exists;
  the handle holds these two values.
\<close>

type_synonym time = int

datatype url = ParsedURL string

datatype httputil_ReverseProxy =
  NewReverseProxy (rewrite_URL: url) (handler_Target: string)

record BackendConfig =
  Target :: string
  URL :: "url option"
  ReverseProxy :: "httputil_ReverseProxy option"

text \<open>
  Modelled from the spec: \<open>IndexFallback\<close>, the "index fallback enabled" flag of a
  domain. \<^verbatim>\<open>serveFile\<close> reads it as \<^verbatim>\<open>domconfig.IndexFallback\<close>; the declaration
  of the field is not in the \<^verbatim>\<open>config.go\<close> at hand.
\<close>

record DomainConfig =
  BasePath :: string
  Default :: string
  Subdir :: string
  CertFile :: string
  CertTime :: time
  CertConfig :: "nat option"
  KeyFile :: string
  IndexFallback :: bool
  Backends :: "string \<rightharpoonup> BackendConfig"

record ServerConfig =
  TLSPort :: int
  InsecurePort :: int
  LogFile :: string
  Domains :: "string \<rightharpoonup> DomainConfig"

subsection \<open>The world outside\<close>

datatype tls_Certificate = X509KeyPair string

record tls_Config =
  Certificates :: "tls_Certificate list"
  NextProtos :: "string list"

record ClientHelloInfo =
  ServerName :: string

record FileInfo =
  IsDir :: bool
  Size :: int
  ModTime :: time

text \<open>
  An opened file, as \<^verbatim>\<open>io.Copy\<close> and \<^verbatim>\<open>Close\<close> see it: its bytes; when the copy
  breaks off, the number of bytes that were written before and the error; the
  error of \<^verbatim>\<open>Close\<close>, if any.
\<close>

record File =
  contents :: string
  copy_error :: "(nat \<times> error) option"
  close_error :: "error option"

record Request =
  Host :: string
  URL_Path :: string
  RemoteAddr :: string

text \<open>The answer of an upstream server to a proxied request.\<close>

record Upstream =
  up_status :: nat
  up_header :: "string \<rightharpoonup> string"
  up_body :: string

text \<open>
  What the mediator calls outside the repository, as it answers during one
  handshake or one request:
  \<^item> \<open>EffectiveTLDPlusOne\<close> is \<^verbatim>\<open>publicsuffix.EffectiveTLDPlusOne\<close>, the registrable
    domain of a host by the public suffix list, or an error;
  \<^item> \<open>os_Stat\<close> and \<open>os_Open\<close> are \<^verbatim>\<open>os.Stat\<close> and \<^verbatim>\<open>os.Open\<close>;
  \<^item> \<open>TypeByExtension\<close> is \<^verbatim>\<open>mime.TypeByExtension\<close>, empty for an extension
    without a type;
  \<^item> \<open>Format_TimeFormat\<close> is \<^verbatim>\<open>t.Format(http.TimeFormat)\<close>, the HTTP date of an
    instant;
  \<^item> \<open>url_Parse\<close> is \<^verbatim>\<open>url.Parse\<close> and \<open>LoadX509KeyPair\<close> is
    \<^verbatim>\<open>tls.LoadX509KeyPair\<close>;
  \<^item> \<open>RoundTrip\<close> is what an upstream server answers to a request sent to a
    URL, or the error of the attempt.
\<close>

record env =
  EffectiveTLDPlusOne :: "string \<Rightarrow> error + string"
  os_Stat :: "string \<Rightarrow> error + FileInfo"
  os_Open :: "string \<Rightarrow> error + File"
  TypeByExtension :: "string \<Rightarrow> string"
  Format_TimeFormat :: "time \<Rightarrow> string"
  url_Parse :: "string \<Rightarrow> error + url"
  LoadX509KeyPair :: "string \<Rightarrow> string \<Rightarrow> error + tls_Certificate"
  RoundTrip :: "url \<Rightarrow> Request \<Rightarrow> error + Upstream"

subsection \<open>The response writer\<close>

text \<open>
  A \<^verbatim>\<open>http.ResponseWriter\<close>: the header map, the status codes of the calls of
  \<^verbatim>\<open>WriteHeader\<close> in order, and the body written so far. As the interface
  documents, \<^verbatim>\<open>Write\<close> calls \<^verbatim>\<open>WriteHeader(http.StatusOK)\<close> first when
  \<^verbatim>\<open>WriteHeader\<close> has not been called yet.
\<close>

record ResponseWriter =
  Header :: "string \<rightharpoonup> string"
  statuses :: "nat list"
  body :: string

abbreviation StatusOK :: nat where "StatusOK \<equiv> 200"
abbreviation StatusNotFound :: nat where "StatusNotFound \<equiv> 404"
abbreviation StatusInternalServerError :: nat where "StatusInternalServerError \<equiv> 500"
abbreviation StatusBadGateway :: nat where "StatusBadGateway \<equiv> 502"

definition Header_Set :: "ResponseWriter \<Rightarrow> string \<Rightarrow> string \<Rightarrow> ResponseWriter" where
  "Header_Set w key v = w\<lparr>Header := (Header w)(key \<mapsto> v)\<rparr>"

definition WriteHeader :: "ResponseWriter \<Rightarrow> nat \<Rightarrow> ResponseWriter" where
  "WriteHeader w code = w\<lparr>statuses := statuses w @ [code]\<rparr>"

definition Write :: "ResponseWriter \<Rightarrow> string \<Rightarrow> ResponseWriter" where
  "Write w b =
     (let w' = (if statuses w = [] then WriteHeader w StatusOK else w)
      in w'\<lparr>body := body w' @ b\<rparr>)"

text \<open>
  \<^verbatim>\<open>io.Copy(w, file)\<close> reads the file chunk by chunk and writes each chunk to
  \<open>w\<close>; it calls \<^verbatim>\<open>Write\<close> only with bytes in hand, so nothing is written for
  an empty file. It returns the number of bytes copied and the error.
\<close>

definition io_Copy :: "ResponseWriter \<Rightarrow> File \<Rightarrow> ResponseWriter \<times> nat \<times> error option" where
  "io_Copy w file =
     (let (sent, err) =
            (case copy_error file of
               None \<Rightarrow> (contents file, None)
             | Some (k, e) \<Rightarrow> (take k (contents file), Some e))
      in ((if sent = [] then w else Write w sent), length sent, err))"

subsection \<open>The log\<close>

text \<open>One constructor for each format string that \<^verbatim>\<open>mediator.go\<close> gives to \<^verbatim>\<open>log.Printf\<close>.\<close>

datatype log_entry =
    LogParseError string error
  | LogNoSuchDomain string
  | LogProxyError string string error
  | LogServerNameError string error
  | LogNoConfiguration string
  | LogCertLoadError string string error
  | LogCertLoaded string string
  | LogProxyCreateError string error
  | LogHandoff string string string string string
  | LogCircularFallback string string string
  | LogIndexFallback string string string
  | LogDoesNotExist string string
  | LogCouldNotStat string string error
  | LogCouldNotOpen string string error
  | LogCloseError string error
  | LogSendError string string error
  | LogSent string nat string

subsection \<open>The process state\<close>

text \<open>
  What the handlers share and change: the configuration that the \<^verbatim>\<open>Mediator\<close>
  points to (\<^verbatim>\<open>med.ServerConfig\<close>), the TLS configurations built so far (the
  address of one is its index, and a new one is put at the end), and the lines
  logged.
\<close>

record state =
  cfg :: ServerConfig
  heap :: "tls_Config list"
  logged :: "log_entry list"

definition store_domain :: "state \<Rightarrow> string \<Rightarrow> DomainConfig \<Rightarrow> state" where
  "store_domain s domain domconf =
     s\<lparr>cfg := (cfg s)\<lparr>Domains := (Domains (cfg s))(domain \<mapsto> domconf)\<rparr>\<rparr>"

subsection \<open>The mediator\<close>

text \<open>
  \<^verbatim>\<open>parseRequest\<close>: the host up to its first colon, the domain that the public
  suffix list gives for it, and what is left of the host in front of the domain,
  without one dot at the end.
\<close>

definition parseRequest :: "env \<Rightarrow> Request \<Rightarrow> error + (string \<times> string)" where
  "parseRequest env r =
     (let host = Split_first (Host r) (CHR '':'')
      in case EffectiveTLDPlusOne env host of
           Inl err \<Rightarrow> Inl (Errorf ''could not parse request into pieces'' err)
         | Inr domain \<Rightarrow>
             (let subdomain = TrimSuffix host domain;
                  subdomain = TrimSuffix subdomain ''.''
              in Inr (domain, subdomain)))"

text \<open>
  The \<^verbatim>\<open>ErrorHandler\<close> closure that \<^verbatim>\<open>createReverseProxy\<close> gives to the proxy;
  \<open>target\<close> is \<^verbatim>\<open>backend.Target\<close>.
\<close>

definition ErrorHandler ::
  "string \<Rightarrow> ResponseWriter \<Rightarrow> Request \<Rightarrow> error \<Rightarrow> log_entry list
     \<Rightarrow> ResponseWriter \<times> log_entry list" where
  "ErrorHandler target w r err lg =
     (if errors_Is err Canceled then (w, lg)
      else (Write (WriteHeader w StatusBadGateway) ''SOMETHING ERROR HAPPEN'',
            lg @ [LogProxyError (RemoteAddr r) target err]))"

text \<open>
  \<^verbatim>\<open>createReverseProxy\<close> parses the target when the backend has no URL yet and
  stores the URL in the backend; it returns the backend as it has become.
\<close>

definition createReverseProxy ::
  "env \<Rightarrow> BackendConfig \<Rightarrow> (error + httputil_ReverseProxy) \<times> BackendConfig" where
  "createReverseProxy env backend =
     (case URL backend of
        None \<Rightarrow>
          (case url_Parse env (Target backend) of
             Inl err \<Rightarrow> (Inl (Errorf ''parsing backend target'' err), backend)
           | Inr u \<Rightarrow> (Inr (NewReverseProxy u (Target backend)), backend\<lparr>URL := Some u\<rparr>))
      | Some u \<Rightarrow> (Inr (NewReverseProxy u (Target backend)), backend))"

text \<open>
  \<^verbatim>\<open>httputil.ReverseProxy.ServeHTTP\<close>, as far as the mediator depends on it: the
  request goes to the URL that \<^verbatim>\<open>Rewrite\<close> sets; an error of the round trip is
  given to the \<^verbatim>\<open>ErrorHandler\<close>; otherwise the upstream's header, status and
  body are written to the response.
\<close>

definition ReverseProxy_ServeHTTP ::
  "env \<Rightarrow> httputil_ReverseProxy \<Rightarrow> ResponseWriter \<Rightarrow> Request \<Rightarrow> log_entry list
     \<Rightarrow> ResponseWriter \<times> log_entry list" where
  "ReverseProxy_ServeHTTP env proxy w r lg =
     (case RoundTrip env (rewrite_URL proxy) r of
        Inl err \<Rightarrow> ErrorHandler (handler_Target proxy) w r err lg
      | Inr res \<Rightarrow>
          (let w1 = w\<lparr>Header := Header w ++ up_header res\<rparr>;
               w2 = WriteHeader w1 (up_status res)
           in ((if up_body res = [] then w2 else Write w2 (up_body res)), lg)))"

text \<open>
  \<^verbatim>\<open>getConfigForClient\<close>. The result is the address of the TLS configuration.
  When the public suffix list gives an error, the source logs it and goes on
  with the domain that the library returned with the error, the empty string.
  \<open>domconf\<close> is a pointer in the source, so every change to it is stored back
  into the configuration.
\<close>

definition getConfigForClient :: "env \<Rightarrow> state \<Rightarrow> ClientHelloInfo \<Rightarrow> (error + nat) \<times> state" where
  "getConfigForClient env s hello =
     (if ServerName hello = [] then (Inl (New ''TLS ClientHello has no ServerName''), s)
      else
        let (domain, s1) =
              (case EffectiveTLDPlusOne env (ServerName hello) of
                 Inl err \<Rightarrow>
                   ([], s\<lparr>logged := logged s @ [LogServerNameError (ServerName hello) err]\<rparr>)
               | Inr d \<Rightarrow> (d, s))
        in case Domains (cfg s1) domain of
             None \<Rightarrow>
               (Inl (New ''configuration contains no such domain''),
                s1\<lparr>logged := logged s1 @ [LogNoConfiguration domain]\<rparr>)
           | Some domconf \<Rightarrow>
               (case os_Stat env (CertFile domconf) of
                  Inl err \<Rightarrow> (Inl (Errorf (''stat certfile for '' @ domain) err), s1)
                | Inr info \<Rightarrow>
                    (let domconf1 =
                           (if CertTime domconf < ModTime info
                            then domconf\<lparr>CertConfig := None, CertTime := ModTime info\<rparr>
                            else domconf);
                         s2 = store_domain s1 domain domconf1
                     in case CertConfig domconf1 of
                          None \<Rightarrow>
                            (case LoadX509KeyPair env (CertFile domconf1) (KeyFile domconf1) of
                               Inl err \<Rightarrow>
                                 (Inl (Errorf ''loading key pair'' err),
                                  s2\<lparr>logged := logged s2 @
                                     [LogCertLoadError (CertFile domconf1) (KeyFile domconf1) err]\<rparr>)
                             | Inr cert \<Rightarrow>
                                 (let config = \<lparr>Certificates = [cert],
                                                NextProtos = [''h2'', ''http/1.1'']\<rparr>;
                                      a = length (heap s2);
                                      s3 = s2\<lparr>heap := heap s2 @ [config],
                                              logged := logged s2 @
                                                [LogCertLoaded (CertFile domconf1) (KeyFile domconf1)]\<rparr>
                                  in (Inr a, store_domain s3 domain (domconf1\<lparr>CertConfig := Some a\<rparr>))))
                        | Some a \<Rightarrow> (Inr a, s2))))"

text \<open>
  \<^verbatim>\<open>handoff\<close>. \<open>backend\<close> is a pointer into \<open>domconfig\<close>, so the domain
  configuration is returned with the backend as it has become.
\<close>

definition handoff ::
  "env \<Rightarrow> DomainConfig \<Rightarrow> string \<Rightarrow> string \<Rightarrow> ResponseWriter \<Rightarrow> Request \<Rightarrow> log_entry list
     \<Rightarrow> bool \<times> DomainConfig \<times> ResponseWriter \<times> log_entry list" where
  "handoff env domconfig domain subdomain w r lg =
     (case Backends domconfig subdomain of
        None \<Rightarrow> (False, domconfig, w, lg)
      | Some backend \<Rightarrow>
          (let (created, backend1) =
                 (case ReverseProxy backend of
                    None \<Rightarrow>
                      (case createReverseProxy env backend of
                         (Inl err, b) \<Rightarrow> (Inl err, b)
                       | (Inr proxy, b) \<Rightarrow> (Inr proxy, b\<lparr>ReverseProxy := Some proxy\<rparr>))
                  | Some proxy \<Rightarrow> (Inr proxy, backend));
               domconfig1 = domconfig\<lparr>Backends := (Backends domconfig)(subdomain \<mapsto> backend1)\<rparr>
           in case created of
                Inl err \<Rightarrow>
                  (True, domconfig1,
                   Write (WriteHeader w StatusInternalServerError)
                     ''An error was encountered while processing your request.'',
                   lg @ [LogProxyCreateError (Target backend1) err])
              | Inr proxy \<Rightarrow>
                  (let lg1 = lg @ [LogHandoff (RemoteAddr r) subdomain domain (URL_Path r)
                                     (Target backend1)];
                       (w1, lg2) = ReverseProxy_ServeHTTP env proxy w r lg1
                   in (True, domconfig1, w1, lg2))))"

text \<open>
  The path that \<^verbatim>\<open>serveFile\<close> looks at first (its first statements, up to the
  call of \<^verbatim>\<open>filepath.Clean\<close>).
\<close>

definition candidatePath :: "DomainConfig \<Rightarrow> string \<Rightarrow> string \<Rightarrow> string" where
  "candidatePath domconfig subdomain url_path =
     (let path = url_path;
          path = (if HasSuffix path ''/'' then path @ ''index.html'' else path);
          path = Join [BasePath domconfig, subdomain, Subdir domconfig, path]
      in Clean path)"

text \<open>
  \<^verbatim>\<open>serveFile\<close>. The request is a pointer in the source and \<^verbatim>\<open>r.URL.Path\<close> is
  assigned to, so the request is returned as well. The deferred \<^verbatim>\<open>Close\<close> runs
  when the function returns, after the last line is logged.
\<close>

definition serveFile ::
  "env \<Rightarrow> DomainConfig \<Rightarrow> string \<Rightarrow> ResponseWriter \<Rightarrow> Request \<Rightarrow> log_entry list
     \<Rightarrow> bool \<times> ResponseWriter \<times> Request \<times> log_entry list" where
  "serveFile env domconfig subdomain w r lg =
     (let path = candidatePath domconfig subdomain (URL_Path r)
      in case os_Stat env path of
           Inl err \<Rightarrow>
             (if IsNotExist err then
                (if IndexFallback domconfig then
                   (if HasSuffix (URL_Path r) ''/index.html'' then
                      (False,
                       Write (WriteHeader w StatusNotFound) ''The requested file does not exist'',
                       r,
                       lg @ [LogCircularFallback (RemoteAddr r) path (URL_Path r)])
                    else
                      (let r1 = r\<lparr>URL_Path := Dir (URL_Path r) @ ''/index.html''\<rparr>
                       in (True, w, r1,
                           lg @ [LogIndexFallback (RemoteAddr r1) path (URL_Path r1)])))
                 else
                   (False,
                    Write (WriteHeader w StatusNotFound) ''The requested file does not exist'',
                    r,
                    lg @ [LogDoesNotExist (RemoteAddr r) path]))
              else
                (False,
                 Write (WriteHeader w StatusNotFound) ''The requested file does not exist'',
                 r,
                 lg @ [LogCouldNotStat (RemoteAddr r) path err]))
         | Inr fileInfo \<Rightarrow>
             (let (path, restat) =
                    (if IsDir fileInfo
                     then (path @ ''/index.html'', os_Stat env (path @ ''/index.html''))
                     else (path, Inr fileInfo))
              in case restat of
                   Inl err \<Rightarrow>
                     (False,
                      Write (WriteHeader w StatusNotFound) ''The requested file does not exist'',
                      r,
                      lg @ [if IsNotExist err then LogDoesNotExist (RemoteAddr r) path
                            else LogCouldNotStat (RemoteAddr r) path err])
                 | Inr fileInfo \<Rightarrow>
                     (case os_Open env path of
                        Inl err \<Rightarrow>
                          (False,
                           Write (WriteHeader w StatusNotFound)
                             ''The requested file could not be opened'',
                           r,
                           lg @ [LogCouldNotOpen (RemoteAddr r) path err])
                      | Inr file \<Rightarrow>
                          (let w1 = Header_Set w ''Content-Length'' (FormatInt (Size fileInfo));
                               w2 = Header_Set w1 ''Last-Modified''
                                      (Format_TimeFormat env (ModTime fileInfo));
                               contentType = TypeByExtension env (Ext path);
                               w3 = (if contentType \<noteq> []
                                     then Header_Set w2 ''Content-Type'' contentType else w2);
                               (w4, n, copied) = io_Copy w3 file;
                               lg1 = (case copied of
                                        Some err \<Rightarrow> lg @ [LogSendError (RemoteAddr r) path err]
                                      | None \<Rightarrow> lg @ [LogSent (RemoteAddr r) n path]);
                               lg2 = (case close_error file of
                                        Some err \<Rightarrow> lg1 @ [LogCloseError path err]
                                      | None \<Rightarrow> lg1)
                           in (False, w4, r, lg2)))))"

text \<open>\<^verbatim>\<open>ServeHTTP\<close>. It returns the state, the response and the request as they have become.\<close>

definition ServeHTTP ::
  "env \<Rightarrow> state \<Rightarrow> ResponseWriter \<Rightarrow> Request \<Rightarrow> state \<times> ResponseWriter \<times> Request" where
  "ServeHTTP env s w r =
     (case parseRequest env r of
        Inl err \<Rightarrow>
          (s\<lparr>logged := logged s @ [LogParseError (Host r) err]\<rparr>,
           Write (WriteHeader w StatusInternalServerError)
             ''An error was encountered while processing your request.'',
           r)
      | Inr (domain, subdomain) \<Rightarrow>
          (case Domains (cfg s) domain of
             None \<Rightarrow>
               (s\<lparr>logged := logged s @ [LogNoSuchDomain (Host r)]\<rparr>,
                Write (WriteHeader w StatusInternalServerError)
                  ''An error was encountered while processing your request.'',
                r)
           | Some domconfig \<Rightarrow>
               (let subdomain = (if subdomain = [] then Default domconfig else subdomain);
                    (handled, domconfig1, w1, lg1) =
                       handoff env domconfig domain subdomain w r (logged s);
                    s1 = store_domain s domain domconfig1
                in if handled then (s1\<lparr>logged := lg1\<rparr>, w1, r)
                   else
                     (let (retry, w2, r2, lg2) = serveFile env domconfig1 subdomain w1 r lg1
                      in if retry then
                           (let (again, w3, r3, lg3) = serveFile env domconfig1 subdomain w2 r2 lg2
                            in (s1\<lparr>logged := lg3\<rparr>, w3, r3))
                         else (s1\<lparr>logged := lg2\<rparr>, w2, r2)))))"

subsection \<open>Handshakes one after another\<close>


subsection \<open>Paths in normal form\<close>



subsection \<open>What the file resolver finds\<close>

text \<open>
  \<open>found env domconfig subdomain r path fileInfo\<close>: \<^verbatim>\<open>serveFile\<close> gets as far as
  \<^verbatim>\<open>os.Open\<close>, with this path and this file information. Either the
  candidate path is not a directory, or it is one and the \<open>index.html\<close> in it
  can be examined.
\<close>

definition found ::
  "env \<Rightarrow> DomainConfig \<Rightarrow> string \<Rightarrow> Request \<Rightarrow> string \<Rightarrow> FileInfo \<Rightarrow> bool" where
  "found env domconfig subdomain r path fileInfo \<longleftrightarrow>
     (let candidate = candidatePath domconfig subdomain (URL_Path r)
      in case os_Stat env candidate of
           Inl err \<Rightarrow> False
         | Inr info \<Rightarrow>
             if IsDir info
             then path = candidate @ ''/index.html'' \<and> os_Stat env path = Inr fileInfo
             else path = candidate \<and> fileInfo = info)"

text \<open>
  The bytes of an opened file that \<^verbatim>\<open>io.Copy\<close> gets to write: all of them, or
  those before the copy breaks off.
\<close>

definition copied :: "File \<Rightarrow> string" where
  "copied f = (case copy_error f of None \<Rightarrow> contents f | Some (k, e) \<Rightarrow> take k (contents f))"

subsection \<open>Reading the log\<close>

text \<open>
  Every path through \<^verbatim>\<open>serveFile\<close> logs one line before it returns (and one
  more when the deferred \<^verbatim>\<open>Close\<close> fails). \<open>resolver_outcome\<close> holds of these
  lines, so the number of them in a log is the number of times \<^verbatim>\<open>serveFile\<close> ran;
  \<open>index_fallback\<close> holds of the line that goes with the rewrite of the
  request path.
\<close>

fun resolver_outcome :: "log_entry \<Rightarrow> bool" where
  "resolver_outcome (LogCircularFallback addr path url_path) = True"
| "resolver_outcome (LogIndexFallback addr path url_path) = True"
| "resolver_outcome (LogDoesNotExist addr path) = True"
| "resolver_outcome (LogCouldNotStat addr path err) = True"
| "resolver_outcome (LogCouldNotOpen addr path err) = True"
| "resolver_outcome (LogSendError addr path err) = True"
| "resolver_outcome (LogSent addr n path) = True"
| "resolver_outcome entry = False"

fun index_fallback :: "log_entry \<Rightarrow> bool" where
  "index_fallback (LogIndexFallback addr path url_path) = True"
| "index_fallback entry = False"

subsection \<open>A small deployment\<close>

text \<open>
  The example configuration of the README, with an index fallback and two
  backends, one of them with a target that is not a URL, and a world around it
  to run the handlers in.
\<close>

definition example_domain :: DomainConfig where
  "example_domain =
     \<lparr>BasePath = ''/var/www/html/example'', Default = ''www'', Subdir = ''public_html'',
      CertFile = ''/etc/letsencrypt/live/example.com/fullchain.pem'',
      CertTime = 0, CertConfig = None,
      KeyFile = ''/etc/letsencrypt/live/example.com/privkey.pem'',
      IndexFallback = True,
      Backends =
        [''api'' \<mapsto> \<lparr>Target = ''http://127.0.0.1:9000'', URL = None, ReverseProxy = None\<rparr>,
         ''bad'' \<mapsto> \<lparr>Target = ''://nowhere'', URL = None, ReverseProxy = None\<rparr>]\<rparr>"

definition example_state :: state where
  "example_state =
     \<lparr>cfg = \<lparr>TLSPort = 443, InsecurePort = 80, LogFile = ''/var/log/tjenare.log'',
             Domains = [''example.com'' \<mapsto> example_domain]\<rparr>,
      heap = [], logged = []\<rparr>"

definition example_env :: env where
  "example_env =
     \<lparr>EffectiveTLDPlusOne =
        (\<lambda>host. if host = ''example.com'' \<or> host = ''foo.example.com''
                    \<or> host = ''api.example.com'' \<or> host = ''bad.example.com''
                 then Inr ''example.com''
                 else if host = ''www.example.org'' then Inr ''example.org''
                 else Inl (New ''publicsuffix: cannot derive eTLD+1'')),
      os_Stat =
        (\<lambda>path. if path = ''/var/www/html/example/foo/public_html/bar.png''
                 then Inr \<lparr>IsDir = False, Size = 3, ModTime = 1700000000\<rparr>
                 else if path = ''/var/www/html/example/foo/public_html/empty.txt''
                 then Inr \<lparr>IsDir = False, Size = 0, ModTime = 1700000000\<rparr>
                 else if path = ''/etc/letsencrypt/live/example.com/fullchain.pem''
                 then Inr \<lparr>IsDir = False, Size = 4, ModTime = 1700000000\<rparr>
                 else Inl ErrNotExist),
      os_Open =
        (\<lambda>path. if path = ''/var/www/html/example/foo/public_html/bar.png''
                 then Inr \<lparr>contents = ''PNG'', copy_error = None, close_error = None\<rparr>
                 else if path = ''/var/www/html/example/foo/public_html/empty.txt''
                 then Inr \<lparr>contents = [], copy_error = None, close_error = None\<rparr>
                 else Inl ErrNotExist),
      TypeByExtension = (\<lambda>ext. if ext = ''.png'' then ''image/png'' else []),
      Format_TimeFormat = (\<lambda>t. ''Tue, 14 Nov 2023 22:13:20 GMT''),
      url_Parse =
        (\<lambda>target. if target = ''://nowhere'' then Inl (New ''missing protocol scheme'')
                   else Inr (ParsedURL target)),
      LoadX509KeyPair = (\<lambda>certFile keyFile. Inr (X509KeyPair certFile)),
      RoundTrip =
        (\<lambda>u r. Inr \<lparr>up_status = 200, up_header = Map.empty, up_body = ''pong''\<rparr>)\<rparr>"

definition example_writer :: ResponseWriter where
  "example_writer = \<lparr>Header = Map.empty, statuses = [], body = []\<rparr>"

definition example_request :: "string \<Rightarrow> string \<Rightarrow> Request" where
  "example_request host url_path =
     \<lparr>Host = host, URL_Path = url_path, RemoteAddr = ''192.0.2.7:50000''\<rparr>"

section \<open>Properties\<close>

subsection \<open>Strings\<close>

lemma HasSuffix_append: "HasSuffix (p @ suffix) suffix"
  by (simp add: HasSuffix_def)

lemma HasSuffix_iff: "HasSuffix s suffix \<longleftrightarrow> (\<exists>p. s = p @ suffix)"
proof
  assume h: "HasSuffix s suffix"
  then have "s = take (length s - length suffix) s @ suffix"
    unfolding HasSuffix_def by (metis append_take_drop_id)
  then show "\<exists>p. s = p @ suffix" ..
next
  assume "\<exists>p. s = p @ suffix"
  then show "HasSuffix s suffix" by (auto simp: HasSuffix_append)
qed

lemma TrimSuffix_append: "TrimSuffix (p @ suffix) suffix = p"
  by (simp add: TrimSuffix_def HasSuffix_append)

lemma TrimSuffix_dot:
  "TrimSuffix s ''.'' = (if s \<noteq> [] \<and> last s = CHR ''.'' then butlast s else s)"
proof (cases s rule: rev_cases)
  case Nil
  then show ?thesis by (simp add: TrimSuffix_def HasSuffix_def)
next
  case (snoc ys y)
  then show ?thesis by (simp add: TrimSuffix_def HasSuffix_def)
qed

lemma Split_no_sep: "sep \<notin> set h \<Longrightarrow> Split h sep = [h]"
  by (induction h) auto

lemma Split_first_plain: "sep \<notin> set h \<Longrightarrow> Split_first h sep = h"
  by (simp add: Split_first_def Split_no_sep)

lemma Split_hd_append: "sep \<notin> set h \<Longrightarrow> \<exists>rest'. Split (h @ sep # rest) sep = h # rest'"
  by (induction h) auto

lemma Split_first_port: "sep \<notin> set h \<Longrightarrow> Split_first (h @ sep # rest) sep = h"
  using Split_hd_append [of sep h rest] by (auto simp: Split_first_def)

subsection \<open>The paths through the file resolver\<close>

lemma Write_WriteHeader:
  "Write (WriteHeader w code) b = w\<lparr>statuses := statuses w @ [code], body := body w @ b\<rparr>"
  by (simp add: Write_def WriteHeader_def)

lemma serveFile_stat_error:
  assumes "os_Stat env (candidatePath domconfig subdomain (URL_Path r)) = Inl err"
  shows "serveFile env domconfig subdomain w r lg =
     (if IsNotExist err \<and> IndexFallback domconfig \<and> \<not> HasSuffix (URL_Path r) ''/index.html''
      then (True, w, r\<lparr>URL_Path := Dir (URL_Path r) @ ''/index.html''\<rparr>,
            lg @ [LogIndexFallback (RemoteAddr r)
                    (candidatePath domconfig subdomain (URL_Path r))
                    (Dir (URL_Path r) @ ''/index.html'')])
      else (False,
            w\<lparr>statuses := statuses w @ [StatusNotFound],
              body := body w @ ''The requested file does not exist''\<rparr>,
            r,
            lg @ [if IsNotExist err
                  then (if IndexFallback domconfig
                        then LogCircularFallback (RemoteAddr r)
                               (candidatePath domconfig subdomain (URL_Path r)) (URL_Path r)
                        else LogDoesNotExist (RemoteAddr r)
                               (candidatePath domconfig subdomain (URL_Path r)))
                  else LogCouldNotStat (RemoteAddr r)
                         (candidatePath domconfig subdomain (URL_Path r)) err]))"
  using assms by (simp add: serveFile_def Let_def Write_WriteHeader)

lemma serveFile_restat_error:
  assumes "os_Stat env (candidatePath domconfig subdomain (URL_Path r)) = Inr dirInfo"
    and "IsDir dirInfo"
    and "os_Stat env (candidatePath domconfig subdomain (URL_Path r) @ ''/index.html'') = Inl err"
  shows "serveFile env domconfig subdomain w r lg =
     (False,
      w\<lparr>statuses := statuses w @ [StatusNotFound],
        body := body w @ ''The requested file does not exist''\<rparr>,
      r,
      lg @ [if IsNotExist err
            then LogDoesNotExist (RemoteAddr r)
                   (candidatePath domconfig subdomain (URL_Path r) @ ''/index.html'')
            else LogCouldNotStat (RemoteAddr r)
                   (candidatePath domconfig subdomain (URL_Path r) @ ''/index.html'') err])"
  using assms by (simp add: serveFile_def Let_def Write_WriteHeader)

lemma foundE:
  assumes "found env domconfig subdomain r path fileInfo"
  obtains "os_Stat env (candidatePath domconfig subdomain (URL_Path r)) = Inr fileInfo"
      and "\<not> IsDir fileInfo" and "path = candidatePath domconfig subdomain (URL_Path r)"
  | dirInfo where "os_Stat env (candidatePath domconfig subdomain (URL_Path r)) = Inr dirInfo"
      and "IsDir dirInfo" and "path = candidatePath domconfig subdomain (URL_Path r) @ ''/index.html''"
      and "os_Stat env path = Inr fileInfo"
proof (cases "os_Stat env (candidatePath domconfig subdomain (URL_Path r))")
  case (Inl err)
  then show ?thesis using assms by (simp add: found_def)
next
  case (Inr info)
  show ?thesis
  proof (cases "IsDir info")
    case True
    then have "path = candidatePath domconfig subdomain (URL_Path r) @ ''/index.html''
        \<and> os_Stat env path = Inr fileInfo"
      using assms Inr by (auto simp: found_def)
    then show ?thesis using that(2) Inr True by blast
  next
    case False
    then have "path = candidatePath domconfig subdomain (URL_Path r) \<and> fileInfo = info"
      using assms Inr by (auto simp: found_def)
    then show ?thesis using that(1) Inr False by blast
  qed
qed

lemma serveFile_open_error:
  assumes "found env domconfig subdomain r path fileInfo"
    and "os_Open env path = Inl err"
  shows "serveFile env domconfig subdomain w r lg =
     (False,
      w\<lparr>statuses := statuses w @ [StatusNotFound],
        body := body w @ ''The requested file could not be opened''\<rparr>,
      r,
      lg @ [LogCouldNotOpen (RemoteAddr r) path err])"
  using assms(1)
proof (cases rule: foundE)
  case 1
  then show ?thesis
    using assms(2) by (simp add: serveFile_def Let_def Write_WriteHeader)
next
  case (2 dirInfo)
  then show ?thesis
    using assms(2) by (simp add: serveFile_def Let_def Write_WriteHeader)
qed

lemma serveFile_opened:
  assumes "found env domconfig subdomain r path fileInfo"
    and "os_Open env path = Inr opened"
  shows "serveFile env domconfig subdomain w r lg =
     (let w1 = Header_Set w ''Content-Length'' (FormatInt (Size fileInfo));
          w2 = Header_Set w1 ''Last-Modified'' (Format_TimeFormat env (ModTime fileInfo));
          contentType = TypeByExtension env (Ext path);
          w3 = (if contentType \<noteq> [] then Header_Set w2 ''Content-Type'' contentType else w2);
          (w4, n, copied) = io_Copy w3 opened
      in (False, w4, r,
          lg @ [case copied of
                  Some err \<Rightarrow> LogSendError (RemoteAddr r) path err
                | None \<Rightarrow> LogSent (RemoteAddr r) n path]
             @ (case close_error opened of Some err \<Rightarrow> [LogCloseError path err] | None \<Rightarrow> [])))"
  using assms(1)
proof (cases rule: foundE)
  case 1
  then show ?thesis
    using assms(2)
    by (simp add: serveFile_def Let_def split: prod.splits option.splits)
next
  case (2 dirInfo)
  then show ?thesis
    using assms(2)
    by (simp add: serveFile_def Let_def split: prod.splits option.splits)
qed

lemma serveFile_cases [case_names stat_error restat_error open_error opened]:
  obtains err where "os_Stat env (candidatePath domconfig subdomain (URL_Path r)) = Inl err"
  | dirInfo err where "os_Stat env (candidatePath domconfig subdomain (URL_Path r)) = Inr dirInfo"
      and "IsDir dirInfo"
      and "os_Stat env (candidatePath domconfig subdomain (URL_Path r) @ ''/index.html'') = Inl err"
  | path fileInfo err where "found env domconfig subdomain r path fileInfo"
      and "os_Open env path = Inl err"
  | path fileInfo f where "found env domconfig subdomain r path fileInfo"
      and "os_Open env path = Inr f"
proof (cases "os_Stat env (candidatePath domconfig subdomain (URL_Path r))")
  case (Inl err)
  then show ?thesis using that(1) by blast
next
  case (Inr info)
  show ?thesis
  proof (cases "IsDir info")
    case False
    then have f: "found env domconfig subdomain r (candidatePath domconfig subdomain (URL_Path r)) info"
      using Inr by (simp add: found_def)
    then show ?thesis
      using that(3,4) by (cases "os_Open env (candidatePath domconfig subdomain (URL_Path r))") blast+
  next
    case True
    show ?thesis
    proof (cases "os_Stat env (candidatePath domconfig subdomain (URL_Path r) @ ''/index.html'')")
      case (Inl err)
      then show ?thesis using that(2) Inr True by blast
    next
      case inner: (Inr fileInfo)
      then have f: "found env domconfig subdomain r
          (candidatePath domconfig subdomain (URL_Path r) @ ''/index.html'') fileInfo"
        using Inr True by (simp add: found_def)
      then show ?thesis
        using that(3,4)
        by (cases "os_Open env (candidatePath domconfig subdomain (URL_Path r) @ ''/index.html'')") blast+
    qed
  qed
qed

lemma serveFile_retry:
  assumes "fst (serveFile env domconfig subdomain w r lg)"
  shows "serveFile env domconfig subdomain w r lg =
           (True, w, r\<lparr>URL_Path := Dir (URL_Path r) @ ''/index.html''\<rparr>,
            lg @ [LogIndexFallback (RemoteAddr r)
                    (candidatePath domconfig subdomain (URL_Path r))
                    (Dir (URL_Path r) @ ''/index.html'')])"
    and "\<not> HasSuffix (URL_Path r) ''/index.html''"
    and "IndexFallback domconfig"
    and "os_Stat env (candidatePath domconfig subdomain (URL_Path r)) = Inl ErrNotExist"
proof -
  have "serveFile env domconfig subdomain w r lg =
           (True, w, r\<lparr>URL_Path := Dir (URL_Path r) @ ''/index.html''\<rparr>,
            lg @ [LogIndexFallback (RemoteAddr r)
                    (candidatePath domconfig subdomain (URL_Path r))
                    (Dir (URL_Path r) @ ''/index.html'')])
      \<and> \<not> HasSuffix (URL_Path r) ''/index.html''
      \<and> IndexFallback domconfig
      \<and> os_Stat env (candidatePath domconfig subdomain (URL_Path r)) = Inl ErrNotExist"
  proof (cases rule: serveFile_cases [of env domconfig subdomain r])
    case (stat_error err)
    then show ?thesis
      using assms serveFile_stat_error [OF stat_error, of w lg]
      by (simp add: IsNotExist_def split: if_splits)
  next
    case (restat_error dirInfo err)
    then show ?thesis
      using assms serveFile_restat_error [OF restat_error, of w lg] by simp
  next
    case (open_error path fileInfo err)
    then show ?thesis
      using assms serveFile_open_error [OF open_error, of w lg] by simp
  next
    case (opened path fileInfo f)
    then show ?thesis
      using assms serveFile_opened [OF opened, of w lg]
      by (simp add: Let_def split: prod.splits)
  qed
  then show "serveFile env domconfig subdomain w r lg =
           (True, w, r\<lparr>URL_Path := Dir (URL_Path r) @ ''/index.html''\<rparr>,
            lg @ [LogIndexFallback (RemoteAddr r)
                    (candidatePath domconfig subdomain (URL_Path r))
                    (Dir (URL_Path r) @ ''/index.html'')])"
    and "\<not> HasSuffix (URL_Path r) ''/index.html''"
    and "IndexFallback domconfig"
    and "os_Stat env (candidatePath domconfig subdomain (URL_Path r)) = Inl ErrNotExist"
    by simp_all
qed

lemma serveFile_final:
  assumes "\<not> fst (serveFile env domconfig subdomain w r lg)"
  shows "fst (snd (snd (serveFile env domconfig subdomain w r lg))) = r"
proof (cases rule: serveFile_cases [of env domconfig subdomain r])
  case (stat_error err)
  then show ?thesis
    using assms serveFile_stat_error [OF stat_error, of w lg] by (simp split: if_splits)
next
  case (restat_error dirInfo err)
  then show ?thesis
    using serveFile_restat_error [OF restat_error, of w lg] by simp
next
  case (open_error path fileInfo err)
  then show ?thesis
    using serveFile_open_error [OF open_error, of w lg] by simp
next
  case (opened path fileInfo f)
  then show ?thesis
    using serveFile_opened [OF opened, of w lg]
    by (simp add: Let_def split: prod.splits)
qed

lemma serveFile_logs:
  "\<exists>es. snd (snd (snd (serveFile env domconfig subdomain w r lg))) = lg @ es
        \<and> length (filter resolver_outcome es) = 1
        \<and> length (filter index_fallback es) =
            (if fst (serveFile env domconfig subdomain w r lg) then 1 else 0)"
proof (cases rule: serveFile_cases [of env domconfig subdomain r])
  case (stat_error err)
  then show ?thesis
    using serveFile_stat_error [OF stat_error, of w lg] by simp
next
  case (restat_error dirInfo err)
  then show ?thesis
    using serveFile_restat_error [OF restat_error, of w lg] by simp
next
  case (open_error path fileInfo err)
  then show ?thesis
    using serveFile_open_error [OF open_error, of w lg] by simp
next
  case (opened path fileInfo f)
  then show ?thesis
    using serveFile_opened [OF opened, of w lg]
    by (simp add: Let_def split: prod.splits option.splits)
qed

lemma serveFile_circular:
  assumes "HasSuffix (URL_Path r) ''/index.html''"
    and "os_Stat env (candidatePath domconfig subdomain (URL_Path r)) = Inl ErrNotExist"
  shows "\<exists>entry. serveFile env domconfig subdomain w r lg =
           (False,
            w\<lparr>statuses := statuses w @ [StatusNotFound],
              body := body w @ ''The requested file does not exist''\<rparr>,
            r, lg @ [entry]) \<and> resolver_outcome entry \<and> \<not> index_fallback entry"
  using assms(1) serveFile_stat_error [OF assms(2), of w lg]
  by (simp add: IsNotExist_def)

lemma serveFile_second_final:
  "\<not> fst (serveFile env domconfig subdomain w (r\<lparr>URL_Path := p @ ''/index.html''\<rparr>) lg)"
  using serveFile_retry(2) [of env domconfig subdomain w "r\<lparr>URL_Path := p @ ''/index.html''\<rparr>" lg]
    HasSuffix_append [of p "''/index.html''"]
  by auto

lemma handoff_no_backend:
  "Backends domconfig subdomain = None \<Longrightarrow>
     handoff env domconfig domain subdomain w r lg = (False, domconfig, w, lg)"
  by (simp add: handoff_def)

lemma store_domain_same:
  "Domains (cfg s) domain = Some domconfig \<Longrightarrow> store_domain s domain domconfig = s"
  by (simp add: store_domain_def fun_upd_idem)

lemma ServeHTTP_file_dispatch:
  assumes "parseRequest env r = Inr (domain, subdomain)"
    and "Domains (cfg s) domain = Some domconfig"
    and "Backends domconfig (if subdomain = [] then Default domconfig else subdomain) = None"
  shows "ServeHTTP env s w r =
     (let (retry, w2, r2, lg2) =
            serveFile env domconfig (if subdomain = [] then Default domconfig else subdomain)
              w r (logged s)
      in if retry then
           (let (again, w3, r3, lg3) =
                  serveFile env domconfig (if subdomain = [] then Default domconfig else subdomain)
                    w2 r2 lg2
            in (s\<lparr>logged := lg3\<rparr>, w3, r3))
         else (s\<lparr>logged := lg2\<rparr>, w2, r2))"
  using assms
  by (simp add: ServeHTTP_def Let_def handoff_no_backend store_domain_same split: prod.splits)

text \<open>The definitions to unfold when a handler is run on the small deployment.\<close>

lemmas example_defs =
  example_env_def example_state_def example_domain_def example_writer_def example_request_def

lemmas path_defs = candidatePath_def Join_def Clean_def clean_elem_def Dir_def Ext_def
  HasSuffix_def TrimSuffix_def Split_first_def

subsection \<open>The host resolver\<close>

text \<open>
  C4. For a host of the form \<open>host\<close> or \<open>host:port\<close>, \<^verbatim>\<open>parseRequest\<close> drops the
  port and asks the public suffix list for the registrable domain of \<open>host\<close>.
  When the list gives an error, \<^verbatim>\<open>parseRequest\<close> fails with an error that wraps
  it. When the list gives a domain, the result is that domain and, as
  subdomain, what stands in front of the domain in \<open>host\<close> without one dot at
  its end (nothing, when nothing stands in front). So
  \<open>foo.example.com:8443\<close> gives the domain \<open>example.com\<close> and the subdomain
  \<open>foo\<close>, the list answering \<open>example.com\<close> for \<open>foo.example.com\<close>.
\<close>

theorem parseRequest_splits_host:
  assumes "CHR '':'' \<notin> set host"
    and "Host r = host \<or> Host r = host @ '':'' @ port"
  shows "(\<forall>err. EffectiveTLDPlusOne env host = Inl err \<longrightarrow>
            parseRequest env r = Inl (Errorf ''could not parse request into pieces'' err))
       \<and> (\<forall>before domain. EffectiveTLDPlusOne env host = Inr domain \<and> host = before @ domain \<longrightarrow>
            parseRequest env r =
              Inr (domain, if before \<noteq> [] \<and> last before = CHR ''.'' then butlast before else before))
       \<and> (EffectiveTLDPlusOne env ''foo.example.com'' = Inr ''example.com'' \<longrightarrow>
            parseRequest env (r\<lparr>Host := ''foo.example.com:8443''\<rparr>) = Inr (''example.com'', ''foo''))"
proof -
  have stripped: "Split_first (Host r) (CHR '':'') = host"
    using assms Split_first_plain [of "CHR '':''" host]
      Split_first_port [of "CHR '':''" host port] by auto
  have failing: "parseRequest env r = Inl (Errorf ''could not parse request into pieces'' err)"
    if "EffectiveTLDPlusOne env host = Inl err" for err
    using that stripped by (simp add: parseRequest_def)
  have splitting: "parseRequest env r =
      Inr (domain, if before \<noteq> [] \<and> last before = CHR ''.'' then butlast before else before)"
    if "EffectiveTLDPlusOne env host = Inr domain" and "host = before @ domain" for before domain
  proof -
    have "TrimSuffix host domain = before"
      using that(2) by (simp add: TrimSuffix_append)
    then show ?thesis
      using that(1) stripped by (simp add: parseRequest_def TrimSuffix_dot)
  qed
  have foo: "Split_first ''foo.example.com:8443'' (CHR '':'') = ''foo.example.com''"
    using Split_first_port [of "CHR '':''" "''foo.example.com''" "''8443''"] by simp
  have example: "parseRequest env (r\<lparr>Host := ''foo.example.com:8443''\<rparr>) = Inr (''example.com'', ''foo'')"
    if "EffectiveTLDPlusOne env ''foo.example.com'' = Inr ''example.com''"
    using that foo by (simp add: parseRequest_def TrimSuffix_def HasSuffix_def)
  from failing splitting example show ?thesis by blast
qed

theorem parseRequest_splits_host_witness:
  "CHR '':'' \<notin> set ''foo.example.com''
   \<and> Host (example_request ''foo.example.com:8443'' ''/bar.png'') = ''foo.example.com'' @ '':'' @ ''8443''
   \<and> EffectiveTLDPlusOne example_env ''foo.example.com'' = Inr ''example.com''
   \<and> ''foo.example.com'' = ''foo.'' @ ''example.com''
   \<and> parseRequest example_env (example_request ''foo.example.com:8443'' ''/bar.png'') = Inr (''example.com'', ''foo'')
   \<and> EffectiveTLDPlusOne example_env ''localhost'' = Inl (New ''publicsuffix: cannot derive eTLD+1'')
   \<and> parseRequest example_env (example_request ''localhost'' ''/'') =
       Inl (Errorf ''could not parse request into pieces'' (New ''publicsuffix: cannot derive eTLD+1''))"
proof -
  have colon: "CHR '':'' \<notin> set ''foo.example.com''" by simp
  have form: "Host (example_request ''foo.example.com:8443'' ''/bar.png'') = ''foo.example.com''
      \<or> Host (example_request ''foo.example.com:8443'' ''/bar.png'') = ''foo.example.com'' @ '':'' @ ''8443''"
    by (simp add: example_request_def)
  have colon': "CHR '':'' \<notin> set ''localhost''" by simp
  have form': "Host (example_request ''localhost'' ''/'') = ''localhost''
      \<or> Host (example_request ''localhost'' ''/'') = ''localhost'' @ '':'' @ []"
    by (simp add: example_request_def)
  show ?thesis
    using parseRequest_splits_host [OF colon form, of example_env]
      parseRequest_splits_host [OF colon' form', of example_env]
    by (simp add: example_env_def example_request_def)
qed

subsection \<open>Handshakes without a server name\<close>

text \<open>
  C8. When the client hello carries an empty server name, \<^verbatim>\<open>getConfigForClient\<close>
  returns the error \<open>TLS ClientHello has no ServerName\<close> and no TLS
  configuration, and it leaves the state as it was: no certificate is looked
  up, loaded or cached.
\<close>

theorem getConfigForClient_requires_server_name:
  assumes "ServerName hello = []"
  shows "getConfigForClient env s hello = (Inl (New ''TLS ClientHello has no ServerName''), s)
       \<and> (\<forall>a. fst (getConfigForClient env s hello) \<noteq> Inr a)"
  using assms by (simp add: getConfigForClient_def)

theorem getConfigForClient_requires_server_name_witness:
  "ServerName \<lparr>ServerName = []\<rparr> = []
   \<and> getConfigForClient example_env example_state \<lparr>ServerName = []\<rparr>
       = (Inl (New ''TLS ClientHello has no ServerName''), example_state)"
proof -
  have empty: "ServerName \<lparr>ServerName = []\<rparr> = []" by simp
  show ?thesis
    using getConfigForClient_requires_server_name [OF empty, of example_env example_state]
    by simp
qed

subsection \<open>The error handler of the reverse proxy\<close>

text \<open>
  C9. Called with an error that is not a cancellation, the error handler of the
  reverse proxy writes the status 502 and the fixed body
  \<open>SOMETHING ERROR HAPPEN\<close> and logs one line with the client address, the
  target and the error; it returns nothing to its caller. Called with
  \<^verbatim>\<open>context.Canceled\<close>, bare or wrapped, it leaves the response and the log as
  they were. The proxy gives every error of the round trip to this handler.
\<close>

theorem ErrorHandler_bad_gateway:
  "(\<not> errors_Is err Canceled \<longrightarrow>
      ErrorHandler target w r err lg =
        (w\<lparr>statuses := statuses w @ [StatusBadGateway],
           body := body w @ ''SOMETHING ERROR HAPPEN''\<rparr>,
         lg @ [LogProxyError (RemoteAddr r) target err]))
   \<and> (errors_Is err Canceled \<longrightarrow> ErrorHandler target w r err lg = (w, lg))
   \<and> (\<forall>env proxy. RoundTrip env (rewrite_URL proxy) r = Inl err \<longrightarrow>
        ReverseProxy_ServeHTTP env proxy w r lg = ErrorHandler (handler_Target proxy) w r err lg)"
  by (simp add: ErrorHandler_def ReverseProxy_ServeHTTP_def Write_def WriteHeader_def)

theorem ErrorHandler_bad_gateway_witness:
  "\<not> errors_Is (New ''dial tcp 127.0.0.1:9000: connect: connection refused'') Canceled
   \<and> ErrorHandler ''http://127.0.0.1:9000'' example_writer (example_request ''api.example.com'' ''/x'')
        (New ''dial tcp 127.0.0.1:9000: connect: connection refused'') []
      = (\<lparr>Header = Map.empty, statuses = [StatusBadGateway], body = ''SOMETHING ERROR HAPPEN''\<rparr>,
         [LogProxyError ''192.0.2.7:50000'' ''http://127.0.0.1:9000''
            (New ''dial tcp 127.0.0.1:9000: connect: connection refused'')])
   \<and> errors_Is (Errorf ''round trip'' Canceled) Canceled
   \<and> ErrorHandler ''http://127.0.0.1:9000'' example_writer (example_request ''api.example.com'' ''/x'')
        (Errorf ''round trip'' Canceled) []
      = (example_writer, [])"
  using ErrorHandler_bad_gateway [where err = "New ''dial tcp 127.0.0.1:9000: connect: connection refused''"
      and target = "''http://127.0.0.1:9000''" and w = example_writer
      and r = "example_request ''api.example.com'' ''/x''" and lg = "[]"]
    ErrorHandler_bad_gateway [where err = "Errorf ''round trip'' Canceled"
      and target = "''http://127.0.0.1:9000''" and w = example_writer
      and r = "example_request ''api.example.com'' ''/x''" and lg = "[]"]
  by (simp add: example_writer_def example_request_def)

subsection \<open>The index fallback\<close>

text \<open>
  C1. A request that is dispatched to the file resolver (its host parses, its
  domain is configured and its subdomain, after the default is substituted, has
  no backend) is answered by one call of \<^verbatim>\<open>serveFile\<close> and, when that call
  signals a retry, by one more call whose signal is dropped. So the log gains one
  or two lines of the file resolver and at most one of them is an index fallback;
  the request path is the original one or the one rewritten once; the call on
  the rewritten path never signals a retry. Every call of \<^verbatim>\<open>serveFile\<close> on a
  request path that ends in \<open>/index.html\<close>, rewritten or not, whose candidate
  file does not exist writes 404, leaves the request path as it is and signals
  no retry; so such a request is answered 404 by the first call.
\<close>

theorem file_dispatch_retries_once:
  assumes parsed: "parseRequest env r = Inr (domain, subdomain)"
    and known: "Domains (cfg s) domain = Some domconfig"
    and sub: "sub = (if subdomain = [] then Default domconfig else subdomain)"
    and nobackend: "Backends domconfig sub = None"
  shows "ServeHTTP env s w r =
           (let (retry, w2, r2, lg2) = serveFile env domconfig sub w r (logged s)
            in if retry then
                 (let (again, w3, r3, lg3) = serveFile env domconfig sub w2 r2 lg2
                  in (s\<lparr>logged := lg3\<rparr>, w3, r3))
               else (s\<lparr>logged := lg2\<rparr>, w2, r2))
       \<and> (\<exists>es. logged (fst (ServeHTTP env s w r)) = logged s @ es
              \<and> 1 \<le> length (filter resolver_outcome es)
              \<and> length (filter resolver_outcome es) \<le> 2
              \<and> length (filter index_fallback es) \<le> 1)
       \<and> (URL_Path (snd (snd (ServeHTTP env s w r))) = URL_Path r
            \<or> URL_Path (snd (snd (ServeHTTP env s w r))) = Dir (URL_Path r) @ ''/index.html'')
       \<and> (\<forall>w2 lg2. \<not> fst (serveFile env domconfig sub w2
                              (r\<lparr>URL_Path := Dir (URL_Path r) @ ''/index.html''\<rparr>) lg2))
       \<and> (\<forall>w0 r0 lg0.
            HasSuffix (URL_Path r0) ''/index.html''
            \<and> os_Stat env (candidatePath domconfig sub (URL_Path r0)) = Inl ErrNotExist \<longrightarrow>
            (\<exists>entry. serveFile env domconfig sub w0 r0 lg0 =
                 (False,
                  w0\<lparr>statuses := statuses w0 @ [StatusNotFound],
                     body := body w0 @ ''The requested file does not exist''\<rparr>,
                  r0, lg0 @ [entry])
               \<and> resolver_outcome entry \<and> \<not> index_fallback entry))
       \<and> (HasSuffix (URL_Path r) ''/index.html''
            \<and> os_Stat env (candidatePath domconfig sub (URL_Path r)) = Inl ErrNotExist \<longrightarrow>
          (\<exists>entry. ServeHTTP env s w r =
               (s\<lparr>logged := logged s @ [entry]\<rparr>,
                w\<lparr>statuses := statuses w @ [StatusNotFound],
                  body := body w @ ''The requested file does not exist''\<rparr>,
                r)
             \<and> resolver_outcome entry \<and> \<not> index_fallback entry))"
proof -
  let ?first = "serveFile env domconfig sub w r (logged s)"
  let ?r2 = "r\<lparr>URL_Path := Dir (URL_Path r) @ ''/index.html''\<rparr>"
  have dispatch: "ServeHTTP env s w r =
           (let (retry, w2, r2, lg2) = ?first
            in if retry then
                 (let (again, w3, r3, lg3) = serveFile env domconfig sub w2 r2 lg2
                  in (s\<lparr>logged := lg3\<rparr>, w3, r3))
               else (s\<lparr>logged := lg2\<rparr>, w2, r2))"
    using ServeHTTP_file_dispatch [OF parsed known nobackend [unfolded sub], of w]
    unfolding sub .
  have second: "\<not> fst (serveFile env domconfig sub w2 ?r2 lg2)" for w2 lg2
    by (rule serveFile_second_final)
  obtain es1 where es1: "snd (snd (snd ?first)) = logged s @ es1"
      "length (filter resolver_outcome es1) = 1"
      "length (filter index_fallback es1) = (if fst ?first then 1 else 0)"
    using serveFile_logs [of env domconfig sub w r "logged s"] by blast
  have counted: "\<exists>es. logged (fst (ServeHTTP env s w r)) = logged s @ es
              \<and> 1 \<le> length (filter resolver_outcome es)
              \<and> length (filter resolver_outcome es) \<le> 2
              \<and> length (filter index_fallback es) \<le> 1"
  proof (cases "fst ?first")
    case False
    then have "logged (fst (ServeHTTP env s w r)) = logged s @ es1"
      using dispatch es1(1) by (simp add: Let_def split: prod.splits)
    with es1 False show ?thesis by auto
  next
    case True
    let ?lg2 = "logged s @ es1"
    have first: "?first = (True, w, ?r2, ?lg2)"
      using serveFile_retry(1) [OF True] es1(1) by (auto simp: prod_eq_iff)
    let ?second = "serveFile env domconfig sub w ?r2 ?lg2"
    obtain es2 where es2: "snd (snd (snd ?second)) = ?lg2 @ es2"
        "length (filter resolver_outcome es2) = 1"
        "length (filter index_fallback es2) = (if fst ?second then 1 else 0)"
      using serveFile_logs [of env domconfig sub w ?r2 ?lg2] by blast
    have "logged (fst (ServeHTTP env s w r)) = logged s @ (es1 @ es2)"
      using dispatch first es2(1) by (simp add: Let_def split: prod.splits)
    moreover have "length (filter index_fallback es2) = 0"
      using es2(3) second [of w ?lg2] by simp
    ultimately show ?thesis
      using es1(2,3) es2(2) True by (intro exI [of _ "es1 @ es2"]) simp
  qed
  have rewritten: "URL_Path (snd (snd (ServeHTTP env s w r))) = URL_Path r
            \<or> URL_Path (snd (snd (ServeHTTP env s w r))) = Dir (URL_Path r) @ ''/index.html''"
  proof (cases "fst ?first")
    case False
    then have "snd (snd (ServeHTTP env s w r)) = r"
      using dispatch serveFile_final [OF False] by (simp add: Let_def split: prod.splits)
    then show ?thesis by simp
  next
    case True
    have first: "?first = (True, w, ?r2, snd (snd (snd ?first)))"
      using serveFile_retry(1) [OF True] by simp
    let ?second = "serveFile env domconfig sub w ?r2 (snd (snd (snd ?first)))"
    have "fst (snd (snd ?second)) = ?r2"
      using serveFile_final [OF second] .
    moreover have "snd (snd (ServeHTTP env s w r)) = fst (snd (snd ?second))"
      using dispatch first by (simp add: Let_def split: prod.splits)
    ultimately show ?thesis by simp
  qed
  have circular: "\<exists>entry. ServeHTTP env s w r =
               (s\<lparr>logged := logged s @ [entry]\<rparr>,
                w\<lparr>statuses := statuses w @ [StatusNotFound],
                  body := body w @ ''The requested file does not exist''\<rparr>,
                r)
             \<and> resolver_outcome entry \<and> \<not> index_fallback entry"
    if ends: "HasSuffix (URL_Path r) ''/index.html''"
      and missing: "os_Stat env (candidatePath domconfig sub (URL_Path r)) = Inl ErrNotExist"
  proof -
    obtain entry where "?first = (False,
            w\<lparr>statuses := statuses w @ [StatusNotFound],
              body := body w @ ''The requested file does not exist''\<rparr>,
            r, logged s @ [entry])" "resolver_outcome entry" "\<not> index_fallback entry"
      using serveFile_circular [OF ends missing, of w "logged s"] by blast
    then show ?thesis using dispatch by (intro exI [of _ entry]) simp
  qed
  have every: "\<exists>entry. serveFile env domconfig sub w0 r0 lg0 =
                 (False,
                  w0\<lparr>statuses := statuses w0 @ [StatusNotFound],
                     body := body w0 @ ''The requested file does not exist''\<rparr>,
                  r0, lg0 @ [entry])
               \<and> resolver_outcome entry \<and> \<not> index_fallback entry"
    if "HasSuffix (URL_Path r0) ''/index.html''
        \<and> os_Stat env (candidatePath domconfig sub (URL_Path r0)) = Inl ErrNotExist"
    for w0 r0 lg0
    using that serveFile_circular [of r0 env domconfig sub w0 lg0] by blast
  from dispatch counted rewritten second every circular show ?thesis by blast
qed


theorem file_dispatch_retries_once_witness:
  "parseRequest example_env (example_request ''foo.example.com:8443'' ''/a/b'')
     = Inr (''example.com'', ''foo'')
   \<and> Domains (cfg example_state) ''example.com'' = Some example_domain
   \<and> Backends example_domain ''foo'' = None
   \<and> ServeHTTP example_env example_state example_writer
         (example_request ''foo.example.com:8443'' ''/a/b'')
       = (example_state
            \<lparr>logged :=
               [LogIndexFallback ''192.0.2.7:50000''
                  ''/var/www/html/example/foo/public_html/a/b'' ''/a/index.html'',
                LogCircularFallback ''192.0.2.7:50000''
                  ''/var/www/html/example/foo/public_html/a/index.html'' ''/a/index.html'']\<rparr>,
          \<lparr>Header = Map.empty, statuses = [StatusNotFound],
             body = ''The requested file does not exist''\<rparr>,
          example_request ''foo.example.com:8443'' ''/a/index.html'')"
proof -
  have parsed: "parseRequest example_env (example_request ''foo.example.com:8443'' ''/a/b'')
      = Inr (''example.com'', ''foo'')"
    by (simp add: parseRequest_def path_defs example_defs)
  have known: "Domains (cfg example_state) ''example.com'' = Some example_domain"
    by (simp add: example_defs)
  have sub: "''foo'' = (if ''foo'' = [] then Default example_domain else ''foo'')"
    by simp
  have nobackend: "Backends example_domain ''foo'' = None"
    by (simp add: example_defs)
  have "ServeHTTP example_env example_state example_writer
         (example_request ''foo.example.com:8443'' ''/a/b'')
       = (let (retry, w2, r2, lg2) =
                serveFile example_env example_domain ''foo'' example_writer
                  (example_request ''foo.example.com:8443'' ''/a/b'') (logged example_state)
          in if retry then
               (let (again, w3, r3, lg3) = serveFile example_env example_domain ''foo'' w2 r2 lg2
                in (example_state\<lparr>logged := lg3\<rparr>, w3, r3))
             else (example_state\<lparr>logged := lg2\<rparr>, w2, r2))"
    using file_dispatch_retries_once [OF parsed known sub nobackend, of example_writer]
    by (rule conjunct1)
  also have "\<dots> = (example_state
            \<lparr>logged :=
               [LogIndexFallback ''192.0.2.7:50000''
                  ''/var/www/html/example/foo/public_html/a/b'' ''/a/index.html'',
                LogCircularFallback ''192.0.2.7:50000''
                  ''/var/www/html/example/foo/public_html/a/index.html'' ''/a/index.html'']\<rparr>,
          \<lparr>Header = Map.empty, statuses = [StatusNotFound],
             body = ''The requested file does not exist''\<rparr>,
          example_request ''foo.example.com:8443'' ''/a/index.html'')"
    by (simp add: serveFile_def Write_def WriteHeader_def IsNotExist_def Let_def
        path_defs example_defs)
  finally show ?thesis
    using parsed known nobackend by simp
qed

subsection \<open>Unknown domains\<close>

lemma parseRequest_cong:
  "EffectiveTLDPlusOne env' = EffectiveTLDPlusOne env \<Longrightarrow> parseRequest env' r = parseRequest env r"
  by (simp add: parseRequest_def)

text \<open>
  C3. When the host of a request resolves to a domain that is not a key of the
  configured domains, \<^verbatim>\<open>ServeHTTP\<close> writes the status 500 and the fixed body
  \<open>An error was encountered while processing your request.\<close>, logs one line
  and returns; the state is otherwise unchanged, and the answer is the same
  whatever the file system and the upstream servers hold. When the server name
  of a handshake resolves to such a domain, \<^verbatim>\<open>getConfigForClient\<close> returns the
  error \<open>configuration contains no such domain\<close> and no TLS configuration,
  and changes nothing but the log. The same holds when the server name does not
  resolve at all and the empty string, which is then looked up, is not a key.
  No other domain is ever looked up in place of the missing one.
\<close>

theorem unknown_domain_fails_closed:
  "(parseRequest env r = Inr (domain, subdomain) \<and> Domains (cfg s) domain = None \<longrightarrow>
      ServeHTTP env s w r =
        (s\<lparr>logged := logged s @ [LogNoSuchDomain (Host r)]\<rparr>,
         w\<lparr>statuses := statuses w @ [StatusInternalServerError],
           body := body w @ ''An error was encountered while processing your request.''\<rparr>,
         r)
      \<and> (\<forall>env'. EffectiveTLDPlusOne env' = EffectiveTLDPlusOne env \<longrightarrow>
             ServeHTTP env' s w r = ServeHTTP env s w r))
   \<and> (ServerName hello \<noteq> [] \<and> EffectiveTLDPlusOne env (ServerName hello) = Inr domain
        \<and> Domains (cfg s) domain = None \<longrightarrow>
      getConfigForClient env s hello =
        (Inl (New ''configuration contains no such domain''),
         s\<lparr>logged := logged s @ [LogNoConfiguration domain]\<rparr>))
   \<and> (ServerName hello \<noteq> [] \<and> EffectiveTLDPlusOne env (ServerName hello) = Inl err
        \<and> Domains (cfg s) [] = None \<longrightarrow>
      getConfigForClient env s hello =
        (Inl (New ''configuration contains no such domain''),
         s\<lparr>logged := logged s @ [LogServerNameError (ServerName hello) err,
                                  LogNoConfiguration []]\<rparr>))"
proof -
  have http: "ServeHTTP env' s w r =
        (s\<lparr>logged := logged s @ [LogNoSuchDomain (Host r)]\<rparr>,
         w\<lparr>statuses := statuses w @ [StatusInternalServerError],
           body := body w @ ''An error was encountered while processing your request.''\<rparr>,
         r)"
    if "parseRequest env' r = Inr (domain, subdomain)" and "Domains (cfg s) domain = None"
    for env'
    using that by (simp add: ServeHTTP_def Write_WriteHeader)
  have same: "ServeHTTP env' s w r = ServeHTTP env s w r"
    if "parseRequest env r = Inr (domain, subdomain)" and "Domains (cfg s) domain = None"
      and "EffectiveTLDPlusOne env' = EffectiveTLDPlusOne env"
    for env'
    using http [of env] http [of env'] that parseRequest_cong [of env' env r] by simp
  have tls: "getConfigForClient env s hello =
        (Inl (New ''configuration contains no such domain''),
         s\<lparr>logged := logged s @ [LogNoConfiguration domain]\<rparr>)"
    if "ServerName hello \<noteq> []" and "EffectiveTLDPlusOne env (ServerName hello) = Inr domain"
      and "Domains (cfg s) domain = None"
    using that by (simp add: getConfigForClient_def)
  have unresolved: "getConfigForClient env s hello =
        (Inl (New ''configuration contains no such domain''),
         s\<lparr>logged := logged s @ [LogServerNameError (ServerName hello) err,
                                  LogNoConfiguration []]\<rparr>)"
    if "ServerName hello \<noteq> []" and "EffectiveTLDPlusOne env (ServerName hello) = Inl err"
      and "Domains (cfg s) [] = None"
    using that by (simp add: getConfigForClient_def)
  from http [of env] same tls unresolved show ?thesis by blast
qed

theorem unknown_domain_fails_closed_witness:
  "parseRequest example_env (example_request ''www.example.org'' ''/index.html'')
     = Inr (''example.org'', ''www'')
   \<and> Domains (cfg example_state) ''example.org'' = None
   \<and> ServeHTTP example_env example_state example_writer
        (example_request ''www.example.org'' ''/index.html'')
      = (example_state\<lparr>logged := [LogNoSuchDomain ''www.example.org'']\<rparr>,
         \<lparr>Header = Map.empty, statuses = [StatusInternalServerError],
            body = ''An error was encountered while processing your request.''\<rparr>,
         example_request ''www.example.org'' ''/index.html'')
   \<and> ServerName \<lparr>ServerName = ''www.example.org''\<rparr> \<noteq> []
   \<and> EffectiveTLDPlusOne example_env ''www.example.org'' = Inr ''example.org''
   \<and> getConfigForClient example_env example_state \<lparr>ServerName = ''www.example.org''\<rparr>
      = (Inl (New ''configuration contains no such domain''),
         example_state\<lparr>logged := [LogNoConfiguration ''example.org'']\<rparr>)"
proof -
  have parsed: "parseRequest example_env (example_request ''www.example.org'' ''/index.html'')
      = Inr (''example.org'', ''www'')"
    by (simp add: parseRequest_def path_defs example_defs)
  have unknown: "Domains (cfg example_state) ''example.org'' = None"
    by (simp add: example_defs)
  have resolved: "EffectiveTLDPlusOne example_env ''www.example.org'' = Inr ''example.org''"
    by (simp add: example_defs)
  show ?thesis
    using unknown_domain_fails_closed [of example_env
        "example_request ''www.example.org'' ''/index.html''" "''example.org''" "''www''"
        example_state example_writer "\<lparr>ServerName = ''www.example.org''\<rparr>"]
      parsed unknown resolved
    by (simp add: example_defs)
qed

subsection \<open>Backends\<close>

lemma ReverseProxy_ServeHTTP_logs:
  "\<exists>es. snd (ReverseProxy_ServeHTTP env proxy w r lg) = lg @ es \<and> filter resolver_outcome es = []"
  by (simp add: ReverseProxy_ServeHTTP_def ErrorHandler_def Let_def split: sum.splits)

lemma handoff_cached:
  assumes "Backends domconfig subdomain = Some backend"
    and "ReverseProxy backend = Some proxy"
  shows "handoff env domconfig domain subdomain w r lg =
     (True, domconfig,
      ReverseProxy_ServeHTTP env proxy w r
        (lg @ [LogHandoff (RemoteAddr r) subdomain domain (URL_Path r) (Target backend)]))"
proof -
  have "(Backends domconfig)(subdomain \<mapsto> backend) = Backends domconfig"
    using assms(1) by (simp add: fun_upd_idem)
  then show ?thesis
    using assms by (simp add: handoff_def Let_def split: prod.splits)
qed

lemma handoff_created:
  assumes "Backends domconfig subdomain = Some backend"
    and "ReverseProxy backend = None"
    and "createReverseProxy env backend = (Inr proxy, b)"
  shows "handoff env domconfig domain subdomain w r lg =
     (True,
      domconfig\<lparr>Backends := (Backends domconfig)(subdomain \<mapsto> b\<lparr>ReverseProxy := Some proxy\<rparr>)\<rparr>,
      ReverseProxy_ServeHTTP env proxy w r
        (lg @ [LogHandoff (RemoteAddr r) subdomain domain (URL_Path r) (Target backend)]))"
proof -
  have "Target b = Target backend"
    using assms(3) by (auto simp: createReverseProxy_def split: option.splits sum.splits)
  then show ?thesis
    using assms by (simp add: handoff_def Let_def split: prod.splits)
qed

lemma handoff_failed:
  assumes "Backends domconfig subdomain = Some backend"
    and "ReverseProxy backend = None"
    and "createReverseProxy env backend = (Inl err, b)"
  shows "handoff env domconfig domain subdomain w r lg =
     (True, domconfig,
      w\<lparr>statuses := statuses w @ [StatusInternalServerError],
        body := body w @ ''An error was encountered while processing your request.''\<rparr>,
      lg @ [LogProxyCreateError (Target backend) err])"
proof -
  have "b = backend"
    using assms(3) by (auto simp: createReverseProxy_def split: option.splits sum.splits)
  moreover have "(Backends domconfig)(subdomain \<mapsto> backend) = Backends domconfig"
    using assms(1) by (simp add: fun_upd_idem)
  ultimately show ?thesis
    using assms by (simp add: handoff_def Let_def Write_WriteHeader)
qed

lemma handoff_handles:
  assumes "Backends domconfig subdomain = Some backend"
  shows "fst (handoff env domconfig domain subdomain w r lg)"
proof (cases "ReverseProxy backend")
  case (Some proxy)
  then show ?thesis using handoff_cached [OF assms Some, of env domain w r lg] by simp
next
  case None
  obtain res b where c: "createReverseProxy env backend = (res, b)" by (cases "createReverseProxy env backend")
  show ?thesis
  proof (cases res)
    case (Inl err)
    then show ?thesis using handoff_failed [OF assms None, of env err b domain w r lg] c by simp
  next
    case (Inr proxy)
    then show ?thesis using handoff_created [OF assms None, of env proxy b domain w r lg] c by simp
  qed
qed

lemma createReverseProxy_ignores_files:
  "createReverseProxy (env\<lparr>os_Stat := st, os_Open := op\<rparr>) backend = createReverseProxy env backend"
  by (simp add: createReverseProxy_def split: option.splits)

lemma ReverseProxy_ServeHTTP_ignores_files:
  "ReverseProxy_ServeHTTP (env\<lparr>os_Stat := st, os_Open := op\<rparr>) proxy w r lg
     = ReverseProxy_ServeHTTP env proxy w r lg"
  by (simp add: ReverseProxy_ServeHTTP_def)

lemma handoff_ignores_files:
  "handoff (env\<lparr>os_Stat := st, os_Open := op\<rparr>) domconfig domain subdomain w r lg
     = handoff env domconfig domain subdomain w r lg"
  unfolding handoff_def createReverseProxy_ignores_files ReverseProxy_ServeHTTP_ignores_files ..

lemma parseRequest_ignores_files:
  "parseRequest (env\<lparr>os_Stat := st, os_Open := op\<rparr>) r = parseRequest env r"
  by (simp add: parseRequest_def)

lemma ServeHTTP_handled:
  assumes "parseRequest env r = Inr (domain, subdomain)"
    and "Domains (cfg s) domain = Some domconfig"
    and "fst (handoff env domconfig domain (if subdomain = [] then Default domconfig else subdomain)
           w r (logged s))"
  shows "ServeHTTP env s w r =
     (case handoff env domconfig domain (if subdomain = [] then Default domconfig else subdomain)
             w r (logged s) of
        (handled, domconfig1, w1, lg1) \<Rightarrow> ((store_domain s domain domconfig1)\<lparr>logged := lg1\<rparr>, w1, r))"
proof -
  obtain handled domconfig1 w1 lg1 where h:
    "handoff env domconfig domain (if subdomain = [] then Default domconfig else subdomain)
       w r (logged s) = (handled, domconfig1, w1, lg1)"
    by (metis prod_cases4)
  then have "handled" using assms(3) by simp
  then show ?thesis
    using assms(1,2) h by (simp add: ServeHTTP_def Let_def)
qed


text \<open>
  C5, as the code has it. A request whose subdomain, after the default is
  substituted, is a key of the backends of its domain is handled by
  \<^verbatim>\<open>handoff\<close> and by nothing else. When the backend has a proxy, or one can be
  created for it, the request is given to that proxy (after one line is logged).
  When the target of the backend does not parse as a URL, no proxy exists and
  the request is answered 500 with the fixed body. In both cases the answer does
  not depend on the file system and no line of the file resolver is logged: the
  file resolver runs only for a subdomain without a backend.
\<close>

theorem backend_dispatch:
  assumes parsed: "parseRequest env r = Inr (domain, subdomain)"
    and known: "Domains (cfg s) domain = Some domconfig"
    and sub: "sub = (if subdomain = [] then Default domconfig else subdomain)"
    and backend: "Backends domconfig sub = Some backend"
  shows "fst (handoff env domconfig domain sub w r (logged s))
       \<and> ServeHTTP env s w r =
           (case handoff env domconfig domain sub w r (logged s) of
              (handled, domconfig1, w1, lg1) \<Rightarrow>
                ((store_domain s domain domconfig1)\<lparr>logged := lg1\<rparr>, w1, r))
       \<and> (\<forall>proxy.
             ReverseProxy backend = Some proxy
             \<or> ReverseProxy backend = None \<and> fst (createReverseProxy env backend) = Inr proxy \<longrightarrow>
             (fst (snd (ServeHTTP env s w r)), logged (fst (ServeHTTP env s w r))) =
               ReverseProxy_ServeHTTP env proxy w r
                 (logged s @ [LogHandoff (RemoteAddr r) sub domain (URL_Path r) (Target backend)]))
       \<and> (\<forall>err.
             ReverseProxy backend = None \<and> fst (createReverseProxy env backend) = Inl err \<longrightarrow>
             ServeHTTP env s w r =
               (s\<lparr>logged := logged s @ [LogProxyCreateError (Target backend) err]\<rparr>,
                w\<lparr>statuses := statuses w @ [StatusInternalServerError],
                  body := body w @ ''An error was encountered while processing your request.''\<rparr>,
                r))
       \<and> (\<forall>st op. ServeHTTP (env\<lparr>os_Stat := st, os_Open := op\<rparr>) s w r = ServeHTTP env s w r)
       \<and> (\<exists>es. logged (fst (ServeHTTP env s w r)) = logged s @ es
              \<and> filter resolver_outcome es = [])"
proof -
  let ?h = "handoff env domconfig domain sub w r (logged s)"
  have handled: "fst ?h"
    by (rule handoff_handles [OF backend])
  have served: "ServeHTTP env s w r =
      (case ?h of (handled, domconfig1, w1, lg1) \<Rightarrow>
         ((store_domain s domain domconfig1)\<lparr>logged := lg1\<rparr>, w1, r))"
    using ServeHTTP_handled [OF parsed known, of w] handled unfolding sub by simp
  have proxied: "(fst (snd (ServeHTTP env s w r)), logged (fst (ServeHTTP env s w r))) =
               ReverseProxy_ServeHTTP env proxy w r
                 (logged s @ [LogHandoff (RemoteAddr r) sub domain (URL_Path r) (Target backend)])"
    if "ReverseProxy backend = Some proxy
        \<or> ReverseProxy backend = None \<and> fst (createReverseProxy env backend) = Inr proxy"
    for proxy
    using that
  proof
    assume cached: "ReverseProxy backend = Some proxy"
    show ?thesis
      using served handoff_cached [OF backend cached, of env domain w r "logged s"]
      by (simp add: store_domain_def split: prod.splits)
  next
    assume "ReverseProxy backend = None \<and> fst (createReverseProxy env backend) = Inr proxy"
    then have none: "ReverseProxy backend = None"
      and created: "createReverseProxy env backend = (Inr proxy, snd (createReverseProxy env backend))"
      by (simp_all add: prod_eq_iff)
    show ?thesis
      using served handoff_created [OF backend none created, of domain w r "logged s"]
      by (simp add: store_domain_def split: prod.splits)
  qed
  have refused: "ServeHTTP env s w r =
               (s\<lparr>logged := logged s @ [LogProxyCreateError (Target backend) err]\<rparr>,
                w\<lparr>statuses := statuses w @ [StatusInternalServerError],
                  body := body w @ ''An error was encountered while processing your request.''\<rparr>,
                r)"
    if "ReverseProxy backend = None \<and> fst (createReverseProxy env backend) = Inl err" for err
  proof -
    from that have none: "ReverseProxy backend = None"
      and failed: "createReverseProxy env backend = (Inl err, snd (createReverseProxy env backend))"
      by (simp_all add: prod_eq_iff)
    show ?thesis
      using served handoff_failed [OF backend none failed, of domain w r "logged s"]
        store_domain_same [OF known]
      by simp
  qed
  have files: "ServeHTTP (env\<lparr>os_Stat := st, os_Open := op\<rparr>) s w r = ServeHTTP env s w r" for st op
  proof -
    let ?env = "env\<lparr>os_Stat := st, os_Open := op\<rparr>"
    have "parseRequest ?env r = Inr (domain, subdomain)"
      using parsed by (simp add: parseRequest_ignores_files)
    moreover have "fst (handoff ?env domconfig domain
        (if subdomain = [] then Default domconfig else subdomain) w r (logged s))"
      using handled unfolding sub by (simp add: handoff_ignores_files)
    ultimately have "ServeHTTP ?env s w r =
      (case handoff ?env domconfig domain (if subdomain = [] then Default domconfig else subdomain)
              w r (logged s) of
         (handled, domconfig1, w1, lg1) \<Rightarrow>
           ((store_domain s domain domconfig1)\<lparr>logged := lg1\<rparr>, w1, r))"
      using ServeHTTP_handled [of ?env r domain subdomain s domconfig w] known by blast
    then show ?thesis
      using served unfolding sub by (simp add: handoff_ignores_files)
  qed
  have quiet: "\<exists>es. logged (fst (ServeHTTP env s w r)) = logged s @ es
              \<and> filter resolver_outcome es = []"
  proof (cases "ReverseProxy backend")
    case (Some proxy)
    let ?lg = "logged s @ [LogHandoff (RemoteAddr r) sub domain (URL_Path r) (Target backend)]"
    obtain es where "snd (ReverseProxy_ServeHTTP env proxy w r ?lg) = ?lg @ es"
        "filter resolver_outcome es = []"
      using ReverseProxy_ServeHTTP_logs [of env proxy w r ?lg] by blast
    moreover have "logged (fst (ServeHTTP env s w r)) = snd (ReverseProxy_ServeHTTP env proxy w r ?lg)"
      using proxied [of proxy] Some by (simp add: prod_eq_iff)
    ultimately show ?thesis
      by (intro exI [of _ "LogHandoff (RemoteAddr r) sub domain (URL_Path r) (Target backend) # es"])
        simp
  next
    case None
    show ?thesis
    proof (cases "fst (createReverseProxy env backend)")
      case (Inl err)
      then show ?thesis using refused [of err] None by simp
    next
      case (Inr proxy)
      let ?lg = "logged s @ [LogHandoff (RemoteAddr r) sub domain (URL_Path r) (Target backend)]"
      obtain es where "snd (ReverseProxy_ServeHTTP env proxy w r ?lg) = ?lg @ es"
          "filter resolver_outcome es = []"
        using ReverseProxy_ServeHTTP_logs [of env proxy w r ?lg] by blast
      moreover have "logged (fst (ServeHTTP env s w r)) = snd (ReverseProxy_ServeHTTP env proxy w r ?lg)"
        using proxied [of proxy] None Inr by (simp add: prod_eq_iff)
      ultimately show ?thesis
        by (intro exI [of _ "LogHandoff (RemoteAddr r) sub domain (URL_Path r) (Target backend) # es"])
          simp
    qed
  qed
  from handled served proxied refused files quiet show ?thesis by blast
qed


theorem backend_dispatch_witness:
  "parseRequest example_env (example_request ''api.example.com'' ''/x'')
     = Inr (''example.com'', ''api'')
   \<and> Domains (cfg example_state) ''example.com'' = Some example_domain
   \<and> Backends example_domain ''api''
       = Some \<lparr>Target = ''http://127.0.0.1:9000'', URL = None, ReverseProxy = None\<rparr>
   \<and> fst (snd (ServeHTTP example_env example_state example_writer
                  (example_request ''api.example.com'' ''/x'')))
       = \<lparr>Header = Map.empty, statuses = [StatusOK], body = ''pong''\<rparr>
   \<and> logged (fst (ServeHTTP example_env example_state example_writer
                     (example_request ''api.example.com'' ''/x'')))
       = [LogHandoff ''192.0.2.7:50000'' ''api'' ''example.com'' ''/x'' ''http://127.0.0.1:9000'']"
proof -
  let ?backend = "\<lparr>Target = ''http://127.0.0.1:9000'', URL = None, ReverseProxy = None\<rparr>"
  let ?proxy = "NewReverseProxy (ParsedURL ''http://127.0.0.1:9000'') ''http://127.0.0.1:9000''"
  have parsed: "parseRequest example_env (example_request ''api.example.com'' ''/x'')
      = Inr (''example.com'', ''api'')"
    by (simp add: parseRequest_def path_defs example_defs)
  have known: "Domains (cfg example_state) ''example.com'' = Some example_domain"
    by (simp add: example_defs)
  have sub: "''api'' = (if ''api'' = [] then Default example_domain else ''api'')"
    by simp
  have backend: "Backends example_domain ''api'' = Some ?backend"
    by (simp add: example_defs)
  have created: "ReverseProxy ?backend = Some ?proxy
      \<or> ReverseProxy ?backend = None \<and> fst (createReverseProxy example_env ?backend) = Inr ?proxy"
    by (simp add: createReverseProxy_def example_defs)
  have "(fst (snd (ServeHTTP example_env example_state example_writer
                     (example_request ''api.example.com'' ''/x''))),
         logged (fst (ServeHTTP example_env example_state example_writer
                        (example_request ''api.example.com'' ''/x''))))
      = ReverseProxy_ServeHTTP example_env ?proxy example_writer
          (example_request ''api.example.com'' ''/x'')
          (logged example_state @
             [LogHandoff (RemoteAddr (example_request ''api.example.com'' ''/x'')) ''api''
                ''example.com'' (URL_Path (example_request ''api.example.com'' ''/x''))
                (Target ?backend)])"
    using backend_dispatch [OF parsed known sub backend, of example_writer] created by blast
  also have "\<dots> = (\<lparr>Header = Map.empty, statuses = [StatusOK], body = ''pong''\<rparr>,
      [LogHandoff ''192.0.2.7:50000'' ''api'' ''example.com'' ''/x'' ''http://127.0.0.1:9000''])"
    by (simp add: ReverseProxy_ServeHTTP_def Write_def WriteHeader_def Let_def example_defs)
  finally show ?thesis
    using parsed known backend by simp
qed

text \<open>
  The specification has every request for a backend subdomain handed to the
  reverse proxy. That fails for a backend whose target is not a URL: the
  subdomain \<open>bad\<close> is a key of the backends, and the request is answered 500
  by \<^verbatim>\<open>handoff\<close> itself; no proxy is created and none is called.
\<close>

theorem backend_dispatch_counterexample:
  "parseRequest example_env (example_request ''bad.example.com'' ''/x'')
     = Inr (''example.com'', ''bad'')
   \<and> Domains (cfg example_state) ''example.com'' = Some example_domain
   \<and> Backends example_domain ''bad''
       = Some \<lparr>Target = ''://nowhere'', URL = None, ReverseProxy = None\<rparr>
   \<and> ServeHTTP example_env example_state example_writer
        (example_request ''bad.example.com'' ''/x'')
      = (example_state
           \<lparr>logged := [LogProxyCreateError ''://nowhere''
                         (Errorf ''parsing backend target'' (New ''missing protocol scheme''))]\<rparr>,
         \<lparr>Header = Map.empty, statuses = [StatusInternalServerError],
            body = ''An error was encountered while processing your request.''\<rparr>,
         example_request ''bad.example.com'' ''/x'')"
proof -
  let ?backend = "\<lparr>Target = ''://nowhere'', URL = None, ReverseProxy = None\<rparr>"
  have parsed: "parseRequest example_env (example_request ''bad.example.com'' ''/x'')
      = Inr (''example.com'', ''bad'')"
    by (simp add: parseRequest_def path_defs example_defs)
  have known: "Domains (cfg example_state) ''example.com'' = Some example_domain"
    by (simp add: example_defs)
  have backend: "Backends example_domain ''bad'' = Some ?backend"
    by (simp add: example_defs)
  have none: "ReverseProxy ?backend = None"
    by simp
  have failed: "createReverseProxy example_env ?backend
      = (Inl (Errorf ''parsing backend target'' (New ''missing protocol scheme'')), ?backend)"
    by (simp add: createReverseProxy_def example_defs)
  have h: "handoff example_env example_domain ''example.com'' ''bad'' example_writer
        (example_request ''bad.example.com'' ''/x'') (logged example_state)
      = (True, example_domain,
         example_writer\<lparr>statuses := statuses example_writer @ [StatusInternalServerError],
           body := body example_writer @ ''An error was encountered while processing your request.''\<rparr>,
         logged example_state @ [LogProxyCreateError (Target ?backend)
            (Errorf ''parsing backend target'' (New ''missing protocol scheme''))])"
    by (rule handoff_failed [OF backend none failed])
  have "ServeHTTP example_env example_state example_writer
        (example_request ''bad.example.com'' ''/x'')
      = (example_state
           \<lparr>logged := [LogProxyCreateError ''://nowhere''
                         (Errorf ''parsing backend target'' (New ''missing protocol scheme''))]\<rparr>,
         \<lparr>Header = Map.empty, statuses = [StatusInternalServerError],
            body = ''An error was encountered while processing your request.''\<rparr>,
         example_request ''bad.example.com'' ''/x'')"
    using ServeHTTP_handled [OF parsed known, of example_writer] h store_domain_same [OF known]
    by (simp add: example_writer_def example_state_def)
  then show ?thesis
    using parsed known backend by simp
qed

subsection \<open>Serving a file\<close>

text \<open>
  C7. When \<^verbatim>\<open>serveFile\<close> finds a file, opens it and copies it without an
  error, the response has the header \<open>Content-Length\<close> with the decimal size
  from the file information, the header \<open>Last-Modified\<close> with the formatted
  modification time, and the header \<open>Content-Type\<close> with the type that the
  extension of the path maps to; when the extension maps to nothing,
  \<open>Content-Type\<close> is left as it was, and so is every other header. The bytes of
  the file are appended to the body, after the status 200 when the file is not
  empty and no status was written before. When the size in the file information
  is the number of bytes of the file, \<open>Content-Length\<close> is the number of bytes
  added to the body.
\<close>

theorem served_file_response:
  assumes located: "found env domconfig subdomain r path fileInfo"
    and opened: "os_Open env path = Inr f"
    and copied: "copy_error f = None"
    and served: "w' = fst (snd (serveFile env domconfig subdomain w r lg))"
  shows "\<not> fst (serveFile env domconfig subdomain w r lg)
       \<and> Header w' ''Content-Length'' = Some (FormatInt (Size fileInfo))
       \<and> Header w' ''Last-Modified'' = Some (Format_TimeFormat env (ModTime fileInfo))
       \<and> Header w' ''Content-Type'' =
           (if TypeByExtension env (Ext path) = [] then Header w ''Content-Type''
            else Some (TypeByExtension env (Ext path)))
       \<and> (\<forall>key. key \<noteq> ''Content-Length'' \<and> key \<noteq> ''Last-Modified'' \<and> key \<noteq> ''Content-Type'' \<longrightarrow>
             Header w' key = Header w key)
       \<and> body w' = body w @ contents f
       \<and> statuses w' = (if contents f \<noteq> [] \<and> statuses w = [] then [StatusOK] else statuses w)
       \<and> (Size fileInfo = int (length (contents f)) \<longrightarrow>
             Header w' ''Content-Length'' = Some (FormatInt (int (length (body w') - length (body w)))))"
proof -
  have "serveFile env domconfig subdomain w r lg =
     (let w1 = Header_Set w ''Content-Length'' (FormatInt (Size fileInfo));
          w2 = Header_Set w1 ''Last-Modified'' (Format_TimeFormat env (ModTime fileInfo));
          contentType = TypeByExtension env (Ext path);
          w3 = (if contentType \<noteq> [] then Header_Set w2 ''Content-Type'' contentType else w2);
          (w4, n, copied) = io_Copy w3 f
      in (False, w4, r,
          lg @ [case copied of
                  Some err \<Rightarrow> LogSendError (RemoteAddr r) path err
                | None \<Rightarrow> LogSent (RemoteAddr r) n path]
             @ (case close_error f of Some err \<Rightarrow> [LogCloseError path err] | None \<Rightarrow> [])))"
    by (rule serveFile_opened [OF located opened])
  then show ?thesis
    using copied served
    by (simp add: Let_def io_Copy_def Header_Set_def Write_def WriteHeader_def)
qed


theorem served_file_response_witness:
  "found example_env example_domain ''foo'' (example_request ''foo.example.com'' ''/bar.png'')
     ''/var/www/html/example/foo/public_html/bar.png''
     \<lparr>IsDir = False, Size = 3, ModTime = 1700000000\<rparr>
   \<and> os_Open example_env ''/var/www/html/example/foo/public_html/bar.png''
       = Inr \<lparr>contents = ''PNG'', copy_error = None, close_error = None\<rparr>
   \<and> Header (fst (snd (serveFile example_env example_domain ''foo'' example_writer
                          (example_request ''foo.example.com'' ''/bar.png'') [])))
         ''Content-Length'' = Some ''3''
   \<and> Header (fst (snd (serveFile example_env example_domain ''foo'' example_writer
                          (example_request ''foo.example.com'' ''/bar.png'') [])))
         ''Last-Modified'' = Some ''Tue, 14 Nov 2023 22:13:20 GMT''
   \<and> Header (fst (snd (serveFile example_env example_domain ''foo'' example_writer
                          (example_request ''foo.example.com'' ''/bar.png'') [])))
         ''Content-Type'' = Some ''image/png''
   \<and> body (fst (snd (serveFile example_env example_domain ''foo'' example_writer
                        (example_request ''foo.example.com'' ''/bar.png'') [])))
       = ''PNG''
   \<and> statuses (fst (snd (serveFile example_env example_domain ''foo'' example_writer
                            (example_request ''foo.example.com'' ''/bar.png'') [])))
       = [StatusOK]"
proof -
  let ?info = "\<lparr>IsDir = False, Size = 3, ModTime = 1700000000\<rparr>"
  let ?file = "\<lparr>contents = ''PNG'', copy_error = None, close_error = None\<rparr>"
  have located: "found example_env example_domain ''foo''
      (example_request ''foo.example.com'' ''/bar.png'')
      ''/var/www/html/example/foo/public_html/bar.png'' ?info"
    by (simp add: found_def path_defs example_defs)
  have opened: "os_Open example_env ''/var/www/html/example/foo/public_html/bar.png'' = Inr ?file"
    by (simp add: example_defs)
  have copied: "copy_error ?file = None"
    by simp
  have ext: "Ext ''/var/www/html/example/foo/public_html/bar.png'' = ''.png''"
    by (simp add: Ext_def)
  have three: "FormatInt 3 = ''3''"
    by (simp add: FormatInt_def FormatUint.simps digit_def)
  show ?thesis
    using served_file_response [OF located opened copied refl, of example_writer "[]"]
      located opened ext three
    by (simp add: example_env_def example_writer_def)
qed

subsection \<open>Paths in normal form, proved\<close>















subsection \<open>The certificate cache\<close>










subsection \<open>The served path\<close>






subsection \<open>Status codes\<close>














end
